theory Spec2Isabelle
  imports Complex_Main "HOL-Library.Monad_Syntax" "HOL-Library.Code_Target_Nat"
begin

section \<open>Host values\<close>

text \<open>
  The library is TypeScript running on an ECMAScript host. This section models the part of
  the host that the library's code touches: Number values, strings, \<open>undefined\<close>, and
  the conversions \<open>ToNumber\<close> (unary \<open>+\<close>) and \<open>ToString\<close> (template literals).

  A Number value is \<open>NaN\<close>, an infinity, or a finite value carried as a rational.
  \<open>ToNumber\<close> rounds the value of a numeric string to binary64. The arithmetic operators
  are exact: every arithmetic step the library performs on calendar fields and on time
  values below \<open>2^53\<close> in magnitude is exact in binary64, and theorems that leave this
  range say so. The sign of zero is not modelled.
  A string is the list of its UTF-8 bytes, which is how the source files store the
  Thai constants; the library only concatenates strings and splits them at \<open>:\<close>.
\<close>

datatype jsnum = NaN | PosInf | NegInf | Fin rat

datatype jsval = Undefined | Num jsnum | Str string

definition isNaN :: "jsnum \<Rightarrow> bool" where
  "isNaN x \<longleftrightarrow> x = NaN"

text \<open>The relational operators: every comparison with \<open>NaN\<close> is false.\<close>

fun num_lt :: "jsnum \<Rightarrow> jsnum \<Rightarrow> bool" where
  "num_lt (Fin a) (Fin b) = (a < b)"
| "num_lt (Fin a) PosInf = True"
| "num_lt NegInf (Fin b) = True"
| "num_lt NegInf PosInf = True"
| "num_lt x y = False"

definition num_gt :: "jsnum \<Rightarrow> jsnum \<Rightarrow> bool" where
  "num_gt x y = num_lt y x"

definition num_ge :: "jsnum \<Rightarrow> jsnum \<Rightarrow> bool" where
  "num_ge x y \<longleftrightarrow> \<not> isNaN x \<and> \<not> isNaN y \<and> \<not> num_lt x y"

text \<open>Strict equality \<open>===\<close> on Numbers: \<open>NaN\<close> equals nothing.\<close>

definition num_eq :: "jsnum \<Rightarrow> jsnum \<Rightarrow> bool" where
  "num_eq x y \<longleftrightarrow> \<not> isNaN x \<and> x = y"

fun num_neg :: "jsnum \<Rightarrow> jsnum" where
  "num_neg NaN = NaN"
| "num_neg PosInf = NegInf"
| "num_neg NegInf = PosInf"
| "num_neg (Fin a) = Fin (- a)"

fun num_add :: "jsnum \<Rightarrow> jsnum \<Rightarrow> jsnum" where
  "num_add (Fin a) (Fin b) = Fin (a + b)"
| "num_add NaN y = NaN"
| "num_add x NaN = NaN"
| "num_add PosInf NegInf = NaN"
| "num_add NegInf PosInf = NaN"
| "num_add PosInf y = PosInf"
| "num_add x PosInf = PosInf"
| "num_add NegInf y = NegInf"
| "num_add x NegInf = NegInf"

definition num_sub :: "jsnum \<Rightarrow> jsnum \<Rightarrow> jsnum" where
  "num_sub x y = num_add x (num_neg y)"

definition sign_inf :: "bool \<Rightarrow> jsnum" where
  "sign_inf negative = (if negative then NegInf else PosInf)"

fun num_mul :: "jsnum \<Rightarrow> jsnum \<Rightarrow> jsnum" where
  "num_mul (Fin a) (Fin b) = Fin (a * b)"
| "num_mul NaN y = NaN"
| "num_mul x NaN = NaN"
| "num_mul (Fin a) y = (if a = 0 then NaN else sign_inf ((a < 0) \<noteq> (y = NegInf)))"
| "num_mul x (Fin b) = (if b = 0 then NaN else sign_inf ((b < 0) \<noteq> (x = NegInf)))"
| "num_mul x y = sign_inf ((x = NegInf) \<noteq> (y = NegInf))"

text \<open>
  Division, used by the library only with the positive constants \<open>6e4\<close>, \<open>60\<close> and
  \<open>1440\<close> as divisor. A zero divisor is taken as \<open>+0\<close>.
\<close>

fun num_div :: "jsnum \<Rightarrow> jsnum \<Rightarrow> jsnum" where
  "num_div (Fin a) (Fin b) =
     (if b \<noteq> 0 then Fin (a / b) else if a = 0 then NaN else sign_inf (a < 0))"
| "num_div NaN y = NaN"
| "num_div x NaN = NaN"
| "num_div (Fin a) y = Fin 0"
| "num_div x (Fin b) = sign_inf ((b < 0) \<noteq> (x = NegInf))"
| "num_div x y = NaN"

text \<open>Truncation toward zero, as in \<open>ToIntegerOrInfinity\<close> on a finite value.\<close>

definition js_truncate :: "rat \<Rightarrow> int" where
  "js_truncate q = (if 0 \<le> q then \<lfloor>q\<rfloor> else \<lceil>q\<rceil>)"

text \<open>The remainder operator \<open>%\<close>: the result takes the sign of the dividend.\<close>

fun num_rem :: "jsnum \<Rightarrow> jsnum \<Rightarrow> jsnum" where
  "num_rem (Fin n) (Fin d) = (if d = 0 then NaN else Fin (n - d * of_int (js_truncate (n / d))))"
| "num_rem (Fin n) PosInf = Fin n"
| "num_rem (Fin n) NegInf = Fin n"
| "num_rem x y = NaN"

text \<open>\<open>Math.round\<close> rounds to the nearest integer, a tie going toward \<open>+\<infinity>\<close>.\<close>

fun Math_round :: "jsnum \<Rightarrow> jsnum" where
  "Math_round (Fin q) = Fin (of_int \<lfloor>q + 1 / 2\<rfloor>)"
| "Math_round x = x"

fun Math_floor :: "jsnum \<Rightarrow> jsnum" where
  "Math_floor (Fin q) = Fin (of_int \<lfloor>q\<rfloor>)"
| "Math_floor x = x"

text \<open>\<open>ToBoolean\<close> on a Number: \<open>0\<close> and \<open>NaN\<close> are falsy.\<close>

definition truthy :: "jsnum \<Rightarrow> bool" where
  "truthy x \<longleftrightarrow> x \<noteq> NaN \<and> x \<noteq> Fin 0"

subsection \<open>Rounding to binary64\<close>

text \<open>
  The Number value for a real number (ECMA-262, section 6.1.6.1) is the nearest value
  \<open>m * 2^e\<close> with \<open>m\<close> below \<open>2^53\<close> in magnitude and \<open>e\<close> at least \<open>-1074\<close>, a tie
  going to the even \<open>m\<close>; it is an infinity when the rounded magnitude reaches
  \<open>2^1024\<close>.
\<close>

fun bit_length :: "nat \<Rightarrow> nat" where
  "bit_length n = (if n = 0 then 0 else Suc (bit_length (n div 2)))"

declare bit_length.simps [simp del]

definition pow2 :: "int \<Rightarrow> rat" where
  "pow2 e = (if 0 \<le> e then 2 ^ nat e else 1 / 2 ^ nat (- e))"

text \<open>The exponent \<open>k\<close> with \<open>2^k \<le> q < 2^(k+1)\<close>, for a positive \<open>q\<close>.\<close>

definition floor_log2 :: "rat \<Rightarrow> int" where
  "floor_log2 q =
     (if 1 \<le> q then int (bit_length (nat \<lfloor>q\<rfloor>)) - 1
      else - int (bit_length (nat (\<lceil>1 / q\<rceil> - 1))))"

definition round_half_even :: "rat \<Rightarrow> int" where
  "round_half_even x =
     (let f = \<lfloor>x\<rfloor>;
          r = x - of_int f
      in if r < 1 / 2 then f
         else if 1 / 2 < r then f + 1
         else if even f then f
         else f + 1)"

definition round_binary64 :: "rat \<Rightarrow> jsnum" where
  "round_binary64 q =
     (let e = max (floor_log2 \<bar>q\<bar> - 52) (- 1074);
          r = of_int (round_half_even (\<bar>q\<bar> / pow2 e)) * pow2 e
      in if q = 0 then Fin 0
         else if 2 ^ 1024 \<le> r then sign_inf (q < 0)
         else Fin (if q < 0 then - r else r))"

subsection \<open>Strings to numbers\<close>

definition is_digit :: "char \<Rightarrow> bool" where
  "is_digit c \<longleftrightarrow> 48 \<le> (of_char c :: nat) \<and> (of_char c :: nat) \<le> 57"

definition digit_val :: "char \<Rightarrow> nat" where
  "digit_val c = of_char c - 48"

definition hex_val :: "char \<Rightarrow> nat option" where
  "hex_val c =
     (let n = (of_char c :: nat) in
      if 48 \<le> n \<and> n \<le> 57 then Some (n - 48)
      else if 65 \<le> n \<and> n \<le> 70 then Some (n - 55)
      else if 97 \<le> n \<and> n \<le> 102 then Some (n - 87)
      else None)"

definition digits_val :: "string \<Rightarrow> nat" where
  "digits_val ds = foldl (\<lambda>a c. 10 * a + digit_val c) 0 ds"

text \<open>
  The digits of a non-decimal integer literal in the given radix: every character must
  be a digit below the radix, and there must be at least one.
\<close>

definition radix_val :: "nat \<Rightarrow> string \<Rightarrow> nat option" where
  "radix_val r ds =
     (if ds \<noteq> [] \<and> list_all (\<lambda>c. case hex_val c of None \<Rightarrow> False | Some v \<Rightarrow> v < r) ds
      then Some (foldl (\<lambda>a c. r * a + the (hex_val c)) 0 ds)
      else None)"

text \<open>
  \<open>WhiteSpace\<close> and \<open>LineTerminator\<close> code points in UTF-8, by encoded length: TAB, LF,
  VT, FF, CR, SP; NBSP; U+1680, U+2000 to U+200A, U+2028, U+2029, U+202F, U+205F,
  U+3000 and U+FEFF.
\<close>

definition ws1 :: "string list" where
  "ws1 = [[CHR 0x09], [CHR 0x0A], [CHR 0x0B], [CHR 0x0C], [CHR 0x0D], [CHR 0x20]]"

definition ws2 :: "string list" where
  "ws2 = [[CHR 0xC2, CHR 0xA0]]"

definition ws3 :: "string list" where
  "ws3 = [[CHR 0xE1, CHR 0x9A, CHR 0x80],
          [CHR 0xE2, CHR 0x80, CHR 0x80], [CHR 0xE2, CHR 0x80, CHR 0x81],
          [CHR 0xE2, CHR 0x80, CHR 0x82], [CHR 0xE2, CHR 0x80, CHR 0x83],
          [CHR 0xE2, CHR 0x80, CHR 0x84], [CHR 0xE2, CHR 0x80, CHR 0x85],
          [CHR 0xE2, CHR 0x80, CHR 0x86], [CHR 0xE2, CHR 0x80, CHR 0x87],
          [CHR 0xE2, CHR 0x80, CHR 0x88], [CHR 0xE2, CHR 0x80, CHR 0x89],
          [CHR 0xE2, CHR 0x80, CHR 0x8A], [CHR 0xE2, CHR 0x80, CHR 0xA8],
          [CHR 0xE2, CHR 0x80, CHR 0xA9], [CHR 0xE2, CHR 0x80, CHR 0xAF],
          [CHR 0xE2, CHR 0x81, CHR 0x9F], [CHR 0xE3, CHR 0x80, CHR 0x80],
          [CHR 0xEF, CHR 0xBB, CHR 0xBF]]"

text \<open>The encoded length of the white space code point a string starts with, or 0.\<close>

definition ws_len :: "string \<Rightarrow> nat" where
  "ws_len s =
     (if take 1 s \<in> set ws1 then 1
      else if take 2 s \<in> set ws2 then 2
      else if take 3 s \<in> set ws3 then 3
      else 0)"

text \<open>The same for the code point a string ends with.\<close>

definition ws_len_end :: "string \<Rightarrow> nat" where
  "ws_len_end s =
     (let n = length s in
      if drop (n - 1) s \<in> set ws1 then 1
      else if drop (n - 2) s \<in> set ws2 then 2
      else if drop (n - 3) s \<in> set ws3 then 3
      else 0)"

function trim_start :: "string \<Rightarrow> string" where
  "trim_start s = (if ws_len s = 0 \<or> s = [] then s else trim_start (drop (ws_len s) s))"
  by pat_completeness auto
termination
  by (relation "measure length") auto

function trim_end :: "string \<Rightarrow> string" where
  "trim_end s =
     (if ws_len_end s = 0 \<or> s = [] then s else trim_end (take (length s - ws_len_end s) s))"
  by pat_completeness auto
termination
  by (relation "measure length") auto

declare trim_start.simps [simp del] trim_end.simps [simp del]

definition trim :: "string \<Rightarrow> string" where
  "trim s = trim_end (trim_start s)"

text \<open>
  \<open>ExponentPart\<close>: \<open>e\<close> or \<open>E\<close>, an optional sign, and at least one digit; the empty
  string is the absent exponent.
\<close>

definition exponent_part :: "string \<Rightarrow> int option" where
  "exponent_part s =
     (case s of
        [] \<Rightarrow> Some 0
      | c # r \<Rightarrow>
          if c = CHR ''e'' \<or> c = CHR ''E'' then
            (let neg = (take 1 r = ''-'');
                 ds = (if take 1 r = ''+'' \<or> take 1 r = ''-'' then drop 1 r else r)
             in if ds \<noteq> [] \<and> list_all is_digit ds
                then Some (if neg then - int (digits_val ds) else int (digits_val ds))
                else None)
          else None)"

definition pow10 :: "int \<Rightarrow> rat" where
  "pow10 e = (if 0 \<le> e then 10 ^ nat e else 1 / 10 ^ nat (- e))"

text \<open>
  \<open>StrUnsignedDecimalLiteral\<close>: \<open>Infinity\<close>, or digits with an optional fraction and
  exponent, at least one digit before or after the point. The result is the Number value
  for the decimal value of the literal. (For a literal of more than twenty significant
  digits ECMA-262 lets an implementation round from the twenty-digit value next below or
  above instead; the nearest binary64 value of the literal itself is always one of the
  permitted results.)
\<close>

definition unsigned_decimal :: "string \<Rightarrow> jsnum" where
  "unsigned_decimal s =
     (if s = ''Infinity'' then PosInf
      else
        let ip = takeWhile is_digit s;
            r1 = dropWhile is_digit s;
            dot = (take 1 r1 = ''.'');
            fp = (if dot then takeWhile is_digit (drop 1 r1) else []);
            r2 = (if dot then dropWhile is_digit (drop 1 r1) else r1)
        in if ip = [] \<and> fp = [] then NaN
           else case exponent_part r2 of
                  None \<Rightarrow> NaN
                | Some e \<Rightarrow>
                    round_binary64 (of_nat (digits_val (ip @ fp)) * pow10 (e - int (length fp))))"

text \<open>
  \<open>StringToNumber\<close>: white space is trimmed; the empty string is \<open>0\<close>; a literal is
  binary, octal or hexadecimal (unsigned), or a signed decimal; anything else is \<open>NaN\<close>.
\<close>

definition StringToNumber :: "string \<Rightarrow> jsnum" where
  "StringToNumber str =
     (let s = trim str;
          p = take 2 s
      in if s = [] then Fin 0
         else if p = ''0x'' \<or> p = ''0X'' then
           (case radix_val 16 (drop 2 s) of None \<Rightarrow> NaN | Some n \<Rightarrow> round_binary64 (of_nat n))
         else if p = ''0o'' \<or> p = ''0O'' then
           (case radix_val 8 (drop 2 s) of None \<Rightarrow> NaN | Some n \<Rightarrow> round_binary64 (of_nat n))
         else if p = ''0b'' \<or> p = ''0B'' then
           (case radix_val 2 (drop 2 s) of None \<Rightarrow> NaN | Some n \<Rightarrow> round_binary64 (of_nat n))
         else if take 1 s = ''+'' then unsigned_decimal (drop 1 s)
         else if take 1 s = ''-'' then num_neg (unsigned_decimal (drop 1 s))
         else unsigned_decimal s)"

definition ToNumber :: "jsval \<Rightarrow> jsnum" where
  "ToNumber v = (case v of Undefined \<Rightarrow> NaN | Num n \<Rightarrow> n | Str s \<Rightarrow> StringToNumber s)"

text \<open>
  A value that the host can hold: a finite Number is a binary64 value, one that rounding
  leaves as it is.
\<close>

definition host_value :: "jsval \<Rightarrow> bool" where
  "host_value v \<longleftrightarrow> (case v of Num (Fin q) \<Rightarrow> round_binary64 q = Fin q | _ \<Rightarrow> True)"

subsection \<open>Numbers to strings\<close>

fun digits10 :: "nat \<Rightarrow> string" where
  "digits10 n =
     (if n < 10 then [''0123456789'' ! n]
      else digits10 (n div 10) @ [''0123456789'' ! (n mod 10)])"

declare digits10.simps [simp del]

text \<open>
  The host, as far as the library depends on it:
  \<^item> the local time zone, as the offset in milliseconds in force at a UTC time value
    (what \<open>LocalTime\<close> adds) and the offset the host picks for a local time value
    (what \<open>UTC\<close> subtracts; at a skipped or repeated local time the host decides);
  \<^item> what \<open>Date.parse\<close> returns for a string that is not in the Date Time String
    Format, which ECMA-262 leaves to the implementation (\<open>None\<close> is \<open>NaN\<close>);
  \<^item> \<open>Number::toString\<close> on a value that is not an integer below \<open>2^53\<close> in
    magnitude, where the digits are those of the binary64 value.
\<close>

record host =
  offset_at_utc :: "int \<Rightarrow> int"
  offset_at_local :: "int \<Rightarrow> int"
  parse_fallback :: "string \<Rightarrow> int option"
  format_number :: "rat \<Rightarrow> string"

definition is_safe_integer :: "rat \<Rightarrow> bool" where
  "is_safe_integer q \<longleftrightarrow> of_int \<lfloor>q\<rfloor> = q \<and> \<bar>q\<bar> < 9007199254740992"

definition Number_toString :: "host \<Rightarrow> jsnum \<Rightarrow> string" where
  "Number_toString H x =
     (case x of
        NaN \<Rightarrow> ''NaN''
      | PosInf \<Rightarrow> ''Infinity''
      | NegInf \<Rightarrow> ''-Infinity''
      | Fin q \<Rightarrow>
          if is_safe_integer q
          then (if q < 0 then ''-'' else []) @ digits10 (nat \<bar>\<lfloor>q\<rfloor>\<bar>)
          else format_number H q)"

definition ToString :: "host \<Rightarrow> jsval \<Rightarrow> string" where
  "ToString H v =
     (case v of Undefined \<Rightarrow> ''undefined'' | Num n \<Rightarrow> Number_toString H n | Str s \<Rightarrow> s)"

section \<open>utils.ts\<close>

text \<open>
  \<^verbatim>\<open>
  export const padZero = (num: number | string) => {
    if (isNaN(+num)) return num;
    if (+num >= 10) return num;
    return `0${num}`;
  };
  \<close>
\<close>

definition padZero :: "host \<Rightarrow> jsval \<Rightarrow> jsval" where
  "padZero H num =
     (if isNaN (ToNumber num) then num
      else if num_ge (ToNumber num) (Fin 10) then num
      else Str (''0'' @ ToString H num))"

section \<open>The host's Date\<close>

text \<open>
  The library wraps the host's \<open>Date\<close>. Its abstract operations are those of ECMA-262,
  section 21.4.1, on integral time values (milliseconds since the epoch); \<open>None\<close> is the
  time value \<open>NaN\<close> of an invalid Date.
\<close>

type_synonym timevalue = "int option"

definition msPerDay :: int where "msPerDay = 86400000"
definition msPerHour :: int where "msPerHour = 3600000"
definition msPerMinute :: int where "msPerMinute = 60000"
definition msPerSecond :: int where "msPerSecond = 1000"

definition Day :: "int \<Rightarrow> int" where
  "Day t = t div msPerDay"

definition TimeWithinDay :: "int \<Rightarrow> int" where
  "TimeWithinDay t = t mod msPerDay"

definition DaysInYear :: "int \<Rightarrow> int" where
  "DaysInYear y =
     (if y mod 4 \<noteq> 0 then 365
      else if y mod 100 \<noteq> 0 then 366
      else if y mod 400 \<noteq> 0 then 365
      else 366)"

definition DayFromYear :: "int \<Rightarrow> int" where
  "DayFromYear y =
     365 * (y - 1970) + (y - 1969) div 4 - (y - 1901) div 100 + (y - 1601) div 400"

definition TimeFromYear :: "int \<Rightarrow> int" where
  "TimeFromYear y = msPerDay * DayFromYear y"

text \<open>
  ECMA-262 specifies \<open>YearFromTime(t)\<close> as the largest \<open>y\<close> with
  \<open>TimeFromYear(y) \<le> t\<close>. The definition computes it: the mean Gregorian year has
  146097/400 days, which gives an estimate that is off by at most one year.
  Lemma \<open>YearFromTime_largest\<close> below shows that the result is the specified year.
\<close>

definition YearFromTime :: "int \<Rightarrow> int" where
  "YearFromTime t =
     (let d = Day t;
          y = 1970 + (400 * d) div 146097
      in if DayFromYear (y + 1) \<le> d then y + 1
         else if d < DayFromYear y then y - 1
         else y)"

definition InLeapYear :: "int \<Rightarrow> int" where
  "InLeapYear t = (if DaysInYear (YearFromTime t) = 365 then 0 else 1)"

definition DayWithinYear :: "int \<Rightarrow> int" where
  "DayWithinYear t = Day t - DayFromYear (YearFromTime t)"

definition MonthFromTime :: "int \<Rightarrow> int" where
  "MonthFromTime t =
     (let d = DayWithinYear t;
          l = InLeapYear t
      in if d < 31 then 0
         else if d < 59 + l then 1
         else if d < 90 + l then 2
         else if d < 120 + l then 3
         else if d < 151 + l then 4
         else if d < 181 + l then 5
         else if d < 212 + l then 6
         else if d < 243 + l then 7
         else if d < 273 + l then 8
         else if d < 304 + l then 9
         else if d < 334 + l then 10
         else 11)"

definition DateFromTime :: "int \<Rightarrow> int" where
  "DateFromTime t =
     (let d = DayWithinYear t;
          l = InLeapYear t;
          m = MonthFromTime t
      in if m = 0 then d + 1
         else if m = 1 then d - 30
         else if m = 2 then d - 58 - l
         else if m = 3 then d - 89 - l
         else if m = 4 then d - 119 - l
         else if m = 5 then d - 150 - l
         else if m = 6 then d - 180 - l
         else if m = 7 then d - 211 - l
         else if m = 8 then d - 242 - l
         else if m = 9 then d - 272 - l
         else if m = 10 then d - 303 - l
         else d - 333 - l)"

definition HourFromTime :: "int \<Rightarrow> int" where
  "HourFromTime t = (t div msPerHour) mod 24"

definition MinFromTime :: "int \<Rightarrow> int" where
  "MinFromTime t = (t div msPerMinute) mod 60"

definition SecFromTime :: "int \<Rightarrow> int" where
  "SecFromTime t = (t div msPerSecond) mod 60"

text \<open>Local time and back, with the host's offsets.\<close>

definition LocalTime :: "host \<Rightarrow> int \<Rightarrow> int" where
  "LocalTime H t = t + offset_at_utc H t"

definition UTC :: "host \<Rightarrow> int \<Rightarrow> int" where
  "UTC H t = t - offset_at_local H t"

definition finite_int :: "jsnum \<Rightarrow> int option" where
  "finite_int x = (case x of Fin q \<Rightarrow> Some (js_truncate q) | _ \<Rightarrow> None)"

definition MakeTime :: "jsnum \<Rightarrow> jsnum \<Rightarrow> jsnum \<Rightarrow> jsnum \<Rightarrow> int option" where
  "MakeTime hr mi sec ms =
     (case (finite_int hr, finite_int mi, finite_int sec, finite_int ms) of
        (Some h, Some m, Some s, Some milli) \<Rightarrow>
          Some (h * msPerHour + m * msPerMinute + s * msPerSecond + milli)
      | _ \<Rightarrow> None)"

text \<open>
  The day number of the first day of month \<open>mn\<close> (0 to 11) of year \<open>ym\<close>, which is what
  \<open>MakeDay\<close> is to find. ECMA-262 lets an implementation give up when an argument is
  out of its range; here the day is found for every year, and a day beyond the range of
  a Date is refused by \<open>TimeClip\<close> when the Date is made.
\<close>

definition month_start :: "int \<Rightarrow> int \<Rightarrow> int" where
  "month_start ym mn =
     DayFromYear ym
     + [0, 31, 59, 90, 120, 151, 181, 212, 243, 273, 304, 334] ! nat mn
     + (if 2 \<le> mn \<and> DaysInYear ym = 366 then 1 else 0)"

definition MakeDay :: "jsnum \<Rightarrow> jsnum \<Rightarrow> jsnum \<Rightarrow> int option" where
  "MakeDay year month date =
     (case (finite_int year, finite_int month, finite_int date) of
        (Some y, Some m, Some dt) \<Rightarrow>
          (let ym = y + m div 12;
               mn = m mod 12
           in Some (month_start ym mn + dt - 1))
      | _ \<Rightarrow> None)"

definition MakeDate :: "int option \<Rightarrow> int option \<Rightarrow> int option" where
  "MakeDate day time =
     (case (day, time) of (Some d, Some t) \<Rightarrow> Some (d * msPerDay + t) | _ \<Rightarrow> None)"

text \<open>The year of a Date built from fields: 0 to 99 stand for 1900 to 1999.\<close>

definition MakeFullYear :: "jsnum \<Rightarrow> jsnum" where
  "MakeFullYear year =
     (case year of
        Fin q \<Rightarrow>
          (let truncated = js_truncate q
           in if 0 \<le> truncated \<and> truncated \<le> 99 then Fin (of_int (1900 + truncated))
              else Fin (of_int truncated))
      | _ \<Rightarrow> year)"

definition TimeClip :: "jsnum \<Rightarrow> timevalue" where
  "TimeClip time =
     (case time of
        Fin q \<Rightarrow> if \<bar>q\<bar> > 8640000000000000 then None else Some (js_truncate q)
      | _ \<Rightarrow> None)"

definition clip_local :: "host \<Rightarrow> int option \<Rightarrow> timevalue" where
  "clip_local H tv =
     (case tv of None \<Rightarrow> None | Some t \<Rightarrow> TimeClip (Fin (of_int (UTC H t))))"

text \<open>\<open>new Date(year, month, date, hours, minutes)\<close>: the fields are local time.\<close>

definition Date_of_fields ::
  "host \<Rightarrow> jsnum \<Rightarrow> jsnum \<Rightarrow> jsnum \<Rightarrow> jsnum \<Rightarrow> jsnum \<Rightarrow> timevalue" where
  "Date_of_fields H year month date hours minutes =
     clip_local H
       (MakeDate (MakeDay (MakeFullYear year) month date)
                 (MakeTime hours minutes (Fin 0) (Fin 0)))"

text \<open>\<open>new Date(value)\<close> with a Number.\<close>

definition Date_of_number :: "jsnum \<Rightarrow> timevalue" where
  "Date_of_number v = TimeClip v"

text \<open>The accessors: each returns \<open>NaN\<close> on an invalid Date.\<close>

definition Date_getTime :: "timevalue \<Rightarrow> jsnum" where
  "Date_getTime tv = (case tv of None \<Rightarrow> NaN | Some t \<Rightarrow> Fin (of_int t))"

definition local_field :: "host \<Rightarrow> (int \<Rightarrow> int) \<Rightarrow> timevalue \<Rightarrow> jsnum" where
  "local_field H f tv = (case tv of None \<Rightarrow> NaN | Some t \<Rightarrow> Fin (of_int (f (LocalTime H t))))"

definition Date_getFullYear :: "host \<Rightarrow> timevalue \<Rightarrow> jsnum" where
  "Date_getFullYear H tv = local_field H YearFromTime tv"

definition Date_getMonth :: "host \<Rightarrow> timevalue \<Rightarrow> jsnum" where
  "Date_getMonth H tv = local_field H MonthFromTime tv"

definition Date_getDate :: "host \<Rightarrow> timevalue \<Rightarrow> jsnum" where
  "Date_getDate H tv = local_field H DateFromTime tv"

definition Date_getHours :: "host \<Rightarrow> timevalue \<Rightarrow> jsnum" where
  "Date_getHours H tv = local_field H HourFromTime tv"

definition Date_getMinutes :: "host \<Rightarrow> timevalue \<Rightarrow> jsnum" where
  "Date_getMinutes H tv = local_field H MinFromTime tv"

definition Date_getSeconds :: "host \<Rightarrow> timevalue \<Rightarrow> jsnum" where
  "Date_getSeconds H tv = local_field H SecFromTime tv"

definition Date_getTimezoneOffset :: "host \<Rightarrow> timevalue \<Rightarrow> jsnum" where
  "Date_getTimezoneOffset H tv =
     (case tv of
        None \<Rightarrow> NaN
      | Some t \<Rightarrow> Fin (of_int (t - LocalTime H t) / of_int msPerMinute))"

text \<open>
  \<open>setHours(hour, min, sec, ms)\<close>: the new time value of the Date. An invalid Date stays
  invalid; otherwise the time within the local day is replaced.
\<close>

definition Date_setHours ::
  "host \<Rightarrow> timevalue \<Rightarrow> jsnum \<Rightarrow> jsnum \<Rightarrow> jsnum \<Rightarrow> jsnum \<Rightarrow> timevalue" where
  "Date_setHours H tv hr mi sec ms =
     (case tv of
        None \<Rightarrow> None
      | Some t \<Rightarrow>
          clip_local H (MakeDate (Some (Day (LocalTime H t))) (MakeTime hr mi sec ms)))"

subsection \<open>Date.parse\<close>

text \<open>
  \<open>Date.parse\<close> recognises the Date Time String Format of ECMA-262, section 21.4.1.32:
  \<open>YYYY\<close>, \<open>YYYY-MM\<close> or \<open>YYYY-MM-DD\<close> (the year also as a sign and six digits),
  optionally followed by \<open>THH:mm\<close>, \<open>THH:mm:ss\<close> or \<open>THH:mm:ss.sss\<close> and then by
  \<open>Z\<close> or an offset \<open>+HH:mm\<close> or \<open>-HH:mm\<close>. Without an offset a date-only string
  is UTC and a date-time string is local time. Every other string, and a string of
  the format whose fields are out of range, is left to the host's fallback.
\<close>

record iso_fields =
  iso_year :: int
  iso_month :: nat
  iso_day :: nat
  iso_time :: "(nat \<times> nat \<times> nat \<times> nat) option"
  iso_offset :: "int option"

text \<open>Exactly \<open>n\<close> decimal digits, and the rest of the string.\<close>

definition digits_n :: "nat \<Rightarrow> string \<Rightarrow> (nat \<times> string) option" where
  "digits_n n s =
     (if n \<le> length s \<and> list_all is_digit (take n s)
      then Some (digits_val (take n s), drop n s)
      else None)"

text \<open>A field that is present exactly when its separator is, with a default.\<close>

definition opt_field :: "char \<Rightarrow> nat \<Rightarrow> nat \<Rightarrow> string \<Rightarrow> (nat \<times> string) option" where
  "opt_field sep n dflt s = (if take 1 s = [sep] then digits_n n (drop 1 s) else Some (dflt, s))"

definition iso_year_part :: "string \<Rightarrow> (int \<times> string) option" where
  "iso_year_part s =
     (if take 1 s = ''+'' \<or> take 1 s = ''-'' then
        (case digits_n 6 (drop 1 s) of
           None \<Rightarrow> None
         | Some (y, r) \<Rightarrow>
             if take 1 s = ''-'' \<and> y = 0 then None
             else Some (if take 1 s = ''-'' then - int y else int y, r))
      else
        (case digits_n 4 s of None \<Rightarrow> None | Some (y, r) \<Rightarrow> Some (int y, r)))"

definition iso_time_part :: "string \<Rightarrow> ((nat \<times> nat \<times> nat \<times> nat) \<times> string) option" where
  "iso_time_part s =
     do {
       (h, r1) \<leftarrow> digits_n 2 s;
       (m, r2) \<leftarrow> (if take 1 r1 = '':'' then digits_n 2 (drop 1 r1) else None);
       if take 1 r2 = '':'' then
         do {
           (sec, r3) \<leftarrow> digits_n 2 (drop 1 r2);
           (ms, r4) \<leftarrow> opt_field (CHR ''.'') 3 0 r3;
           Some ((h, m, sec, ms), r4)
         }
       else Some ((h, m, 0, 0), r2)
     }"

text \<open>The offset in minutes, if any; the string must end with it.\<close>

definition iso_offset_part :: "string \<Rightarrow> int option option" where
  "iso_offset_part s =
     (if s = [] then Some None
      else if s = ''Z'' then Some (Some 0)
      else if take 1 s = ''+'' \<or> take 1 s = ''-'' then
        do {
          (h, r1) \<leftarrow> digits_n 2 (drop 1 s);
          (m, r2) \<leftarrow> (if take 1 r1 = '':'' then digits_n 2 (drop 1 r1) else None);
          if r2 = [] \<and> h \<le> 23 \<and> m \<le> 59
          then Some (Some ((if take 1 s = ''-'' then - 1 else 1) * int (h * 60 + m)))
          else None
        }
      else None)"

definition iso_parse :: "string \<Rightarrow> iso_fields option" where
  "iso_parse s =
     do {
       (y, r1) \<leftarrow> iso_year_part s;
       (mo, r2) \<leftarrow> opt_field (CHR ''-'') 2 1 r1;
       (dy, r3) \<leftarrow> (if r2 = r1 then Some (1, r2) else opt_field (CHR ''-'') 2 1 r2);
       if r3 = [] then
         Some \<lparr>iso_year = y, iso_month = mo, iso_day = dy, iso_time = None, iso_offset = None\<rparr>
       else if take 1 r3 = ''T'' then
         do {
           (tm, r4) \<leftarrow> iso_time_part (drop 1 r3);
           off \<leftarrow> iso_offset_part r4;
           Some \<lparr>iso_year = y, iso_month = mo, iso_day = dy, iso_time = Some tm,
                 iso_offset = off\<rparr>
         }
       else None
     }"

definition DaysInMonth :: "int \<Rightarrow> nat \<Rightarrow> nat" where
  "DaysInMonth y m =
     (if m = 2 then (if DaysInYear y = 366 then 29 else 28)
      else if m \<in> {4, 6, 9, 11} then 30
      else 31)"

definition iso_legal :: "iso_fields \<Rightarrow> bool" where
  "iso_legal f \<longleftrightarrow>
     1 \<le> iso_month f \<and> iso_month f \<le> 12 \<and>
     1 \<le> iso_day f \<and> iso_day f \<le> DaysInMonth (iso_year f) (iso_month f) \<and>
     (case iso_time f of
        None \<Rightarrow> True
      | Some (h, m, s, ms) \<Rightarrow>
          m \<le> 59 \<and> s \<le> 59 \<and> (h \<le> 23 \<or> (h = 24 \<and> m = 0 \<and> s = 0 \<and> ms = 0)))"

definition iso_value :: "host \<Rightarrow> iso_fields \<Rightarrow> timevalue" where
  "iso_value H f =
     (let day = MakeDay (Fin (of_int (iso_year f))) (Fin (of_nat (iso_month f) - 1))
                  (Fin (of_nat (iso_day f)));
          time = (case iso_time f of
                    None \<Rightarrow> Some 0
                  | Some (h, m, s, ms) \<Rightarrow>
                      MakeTime (Fin (of_nat h)) (Fin (of_nat m)) (Fin (of_nat s)) (Fin (of_nat ms)));
          tv = MakeDate day time
      in case iso_offset f of
           Some off \<Rightarrow>
             (case tv of
                None \<Rightarrow> None
              | Some t \<Rightarrow> TimeClip (Fin (of_int (t - off * msPerMinute))))
         | None \<Rightarrow>
             if iso_time f = None then (case tv of None \<Rightarrow> None | Some t \<Rightarrow> TimeClip (Fin (of_int t)))
             else clip_local H tv)"

definition parse_time_value :: "host \<Rightarrow> string \<Rightarrow> timevalue" where
  "parse_time_value H s =
     (case iso_parse s of
        Some f \<Rightarrow>
          if iso_legal f then iso_value H f
          else (case parse_fallback H s of None \<Rightarrow> None | Some t \<Rightarrow> TimeClip (Fin (of_int t)))
      | None \<Rightarrow> (case parse_fallback H s of None \<Rightarrow> None | Some t \<Rightarrow> TimeClip (Fin (of_int t))))"

text \<open>\<open>Date.parse\<close> returns a Number: the time value, or \<open>NaN\<close>.\<close>

definition Date_parse :: "host \<Rightarrow> string \<Rightarrow> jsnum" where
  "Date_parse H s = Date_getTime (parse_time_value H s)"

section \<open>constants.ts\<close>

record timeAgo =
  justNow :: string
  minute :: "jsnum \<Rightarrow> string"
  hour :: "jsnum \<Rightarrow> string"
  day :: "jsnum \<Rightarrow> string"

record lang_constants =
  WEEKDAYS_ABBR :: "string list"
  WEEKDAYS :: "string list"
  MONTHS_ABBR :: "string list"
  MONTHS :: "string list"
  timeAgo :: timeAgo

definition en_WEEKDAYS_ABBR :: "string list" where
  "en_WEEKDAYS_ABBR = [''Sun'', ''Mon'', ''Tue'', ''Wed'', ''Thu'', ''Fri'', ''Sat'']"

definition en_WEEKDAYS :: "string list" where
  "en_WEEKDAYS =
     [''Sunday'', ''Monday'', ''Tuesday'', ''Wednesday'', ''Thursday'', ''Friday'', ''Saturday'']"

definition en_MONTHS_ABBR :: "string list" where
  "en_MONTHS_ABBR =
     [''Jan'', ''Feb'', ''Mar'', ''Apr'', ''May'', ''Jun'', ''Jul'', ''Aug'', ''Sep'', ''Oct'',
      ''Nov'', ''Dec'']"

definition en_MONTHS :: "string list" where
  "en_MONTHS =
     [''January'', ''February'', ''March'', ''April'', ''May'', ''June'', ''July'', ''August'',
      ''September'', ''October'', ''November'', ''December'']"

text \<open>
  The English phrases, \<^verbatim>\<open>`${min} minute${min > 1 ? "s" : ""} ago`\<close> and its two
  siblings, append \<open>s\<close> when the count is above one.
\<close>

definition en_ago :: "host \<Rightarrow> string \<Rightarrow> jsnum \<Rightarrow> string" where
  "en_ago H unit n =
     ToString H (Num n) @ '' '' @ unit @ (if num_gt n (Fin 1) then ''s'' else []) @ '' ago''"

definition en :: "host \<Rightarrow> lang_constants" where
  "en H =
     \<lparr>WEEKDAYS_ABBR = en_WEEKDAYS_ABBR, WEEKDAYS = en_WEEKDAYS,
      MONTHS_ABBR = en_MONTHS_ABBR, MONTHS = en_MONTHS,
      timeAgo = \<lparr>justNow = ''Just now'', minute = en_ago H ''minute'',
                 hour = en_ago H ''hour'', day = en_ago H ''day''\<rparr>\<rparr>"

text \<open>The Thai constants, as the UTF-8 bytes of the string literals in constants.ts.\<close>

definition th_WEEKDAYS_ABBR :: "string list" where
  "th_WEEKDAYS_ABBR =
    [[CHR 0xE0, CHR 0xB8, CHR 0xAD, CHR 0xE0, CHR 0xB8, CHR 0xB2],
     [CHR 0xE0, CHR 0xB8, CHR 0x88],
     [CHR 0xE0, CHR 0xB8, CHR 0xAD],
     [CHR 0xE0, CHR 0xB8, CHR 0x9E],
     [CHR 0xE0, CHR 0xB8, CHR 0x9E, CHR 0xE0, CHR 0xB8, CHR 0xA4],
     [CHR 0xE0, CHR 0xB8, CHR 0xA8],
     [CHR 0xE0, CHR 0xB8, CHR 0xAA]]"

definition th_WEEKDAYS :: "string list" where
  "th_WEEKDAYS =
    [[CHR 0xE0, CHR 0xB8, CHR 0xAD, CHR 0xE0, CHR 0xB8, CHR 0xB2, CHR 0xE0, CHR 0xB8, CHR 0x97,
      CHR 0xE0, CHR 0xB8, CHR 0xB4, CHR 0xE0, CHR 0xB8, CHR 0x95, CHR 0xE0, CHR 0xB8, CHR 0xA2,
      CHR 0xE0, CHR 0xB9, CHR 0x8C],
     [CHR 0xE0, CHR 0xB8, CHR 0x88, CHR 0xE0, CHR 0xB8, CHR 0xB1, CHR 0xE0, CHR 0xB8, CHR 0x99,
      CHR 0xE0, CHR 0xB8, CHR 0x97, CHR 0xE0, CHR 0xB8, CHR 0xA3, CHR 0xE0, CHR 0xB9, CHR 0x8C],
     [CHR 0xE0, CHR 0xB8, CHR 0xAD, CHR 0xE0, CHR 0xB8, CHR 0xB1, CHR 0xE0, CHR 0xB8, CHR 0x87,
      CHR 0xE0, CHR 0xB8, CHR 0x84, CHR 0xE0, CHR 0xB8, CHR 0xB2, CHR 0xE0, CHR 0xB8, CHR 0xA3],
     [CHR 0xE0, CHR 0xB8, CHR 0x9E, CHR 0xE0, CHR 0xB8, CHR 0xB8, CHR 0xE0, CHR 0xB8, CHR 0x98],
     [CHR 0xE0, CHR 0xB8, CHR 0x9E, CHR 0xE0, CHR 0xB8, CHR 0xA4, CHR 0xE0, CHR 0xB8, CHR 0xAB,
      CHR 0xE0, CHR 0xB8, CHR 0xB1, CHR 0xE0, CHR 0xB8, CHR 0xAA, CHR 0xE0, CHR 0xB8, CHR 0x9A,
      CHR 0xE0, CHR 0xB8, CHR 0x94, CHR 0xE0, CHR 0xB8, CHR 0xB5],
     [CHR 0xE0, CHR 0xB8, CHR 0xA8, CHR 0xE0, CHR 0xB8, CHR 0xB8, CHR 0xE0, CHR 0xB8, CHR 0x81,
      CHR 0xE0, CHR 0xB8, CHR 0xA3, CHR 0xE0, CHR 0xB9, CHR 0x8C],
     [CHR 0xE0, CHR 0xB9, CHR 0x80, CHR 0xE0, CHR 0xB8, CHR 0xAA, CHR 0xE0, CHR 0xB8, CHR 0xB2,
      CHR 0xE0, CHR 0xB8, CHR 0xA3, CHR 0xE0, CHR 0xB9, CHR 0x8C]]"

definition th_MONTHS_ABBR :: "string list" where
  "th_MONTHS_ABBR =
    [[CHR 0xE0, CHR 0xB8, CHR 0xA1, CHR 0x2E, CHR 0xE0, CHR 0xB8, CHR 0x84, CHR 0x2E],
     [CHR 0xE0, CHR 0xB8, CHR 0x81, CHR 0x2E, CHR 0xE0, CHR 0xB8, CHR 0x9E, CHR 0x2E],
     [CHR 0xE0, CHR 0xB8, CHR 0xA1, CHR 0xE0, CHR 0xB8, CHR 0xB5, CHR 0x2E, CHR 0xE0, CHR 0xB8,
      CHR 0x84, CHR 0x2E],
     [CHR 0xE0, CHR 0xB9, CHR 0x80, CHR 0xE0, CHR 0xB8, CHR 0xA1, CHR 0x2E, CHR 0xE0, CHR 0xB8,
      CHR 0xA2, CHR 0x2E],
     [CHR 0xE0, CHR 0xB8, CHR 0x9E, CHR 0x2E, CHR 0xE0, CHR 0xB8, CHR 0x84, CHR 0x2E],
     [CHR 0xE0, CHR 0xB8, CHR 0xA1, CHR 0xE0, CHR 0xB8, CHR 0xB4, CHR 0x2E, CHR 0xE0, CHR 0xB8,
      CHR 0xA2, CHR 0x2E],
     [CHR 0xE0, CHR 0xB8, CHR 0x81, CHR 0x2E, CHR 0xE0, CHR 0xB8, CHR 0x84, CHR 0x2E],
     [CHR 0xE0, CHR 0xB8, CHR 0xAA, CHR 0x2E, CHR 0xE0, CHR 0xB8, CHR 0x84, CHR 0x2E],
     [CHR 0xE0, CHR 0xB8, CHR 0x81, CHR 0x2E, CHR 0xE0, CHR 0xB8, CHR 0xA2, CHR 0x2E],
     [CHR 0xE0, CHR 0xB8, CHR 0x95, CHR 0x2E, CHR 0xE0, CHR 0xB8, CHR 0x84, CHR 0x2E],
     [CHR 0xE0, CHR 0xB8, CHR 0x9E, CHR 0x2E, CHR 0xE0, CHR 0xB8, CHR 0xA2, CHR 0x2E],
     [CHR 0xE0, CHR 0xB8, CHR 0x98, CHR 0x2E, CHR 0xE0, CHR 0xB8, CHR 0x84, CHR 0x2E]]"

definition th_MONTHS :: "string list" where
  "th_MONTHS =
    [[CHR 0xE0, CHR 0xB8, CHR 0xA1, CHR 0xE0, CHR 0xB8, CHR 0x81, CHR 0xE0, CHR 0xB8, CHR 0xA3,
      CHR 0xE0, CHR 0xB8, CHR 0xB2, CHR 0xE0, CHR 0xB8, CHR 0x84, CHR 0xE0, CHR 0xB8, CHR 0xA1],
     [CHR 0xE0, CHR 0xB8, CHR 0x81, CHR 0xE0, CHR 0xB8, CHR 0xB8, CHR 0xE0, CHR 0xB8, CHR 0xA1,
      CHR 0xE0, CHR 0xB8, CHR 0xA0, CHR 0xE0, CHR 0xB8, CHR 0xB2, CHR 0xE0, CHR 0xB8, CHR 0x9E,
      CHR 0xE0, CHR 0xB8, CHR 0xB1, CHR 0xE0, CHR 0xB8, CHR 0x99, CHR 0xE0, CHR 0xB8, CHR 0x98,
      CHR 0xE0, CHR 0xB9, CHR 0x8C],
     [CHR 0xE0, CHR 0xB8, CHR 0xA1, CHR 0xE0, CHR 0xB8, CHR 0xB5, CHR 0xE0, CHR 0xB8, CHR 0x99,
      CHR 0xE0, CHR 0xB8, CHR 0xB2, CHR 0xE0, CHR 0xB8, CHR 0x84, CHR 0xE0, CHR 0xB8, CHR 0xA1],
     [CHR 0xE0, CHR 0xB9, CHR 0x80, CHR 0xE0, CHR 0xB8, CHR 0xA1, CHR 0xE0, CHR 0xB8, CHR 0xA9,
      CHR 0xE0, CHR 0xB8, CHR 0xB2, CHR 0xE0, CHR 0xB8, CHR 0xA2, CHR 0xE0, CHR 0xB8, CHR 0x99],
     [CHR 0xE0, CHR 0xB8, CHR 0x9E, CHR 0xE0, CHR 0xB8, CHR 0xA4, CHR 0xE0, CHR 0xB8, CHR 0xA9,
      CHR 0xE0, CHR 0xB8, CHR 0xA0, CHR 0xE0, CHR 0xB8, CHR 0xB2, CHR 0xE0, CHR 0xB8, CHR 0x84,
      CHR 0xE0, CHR 0xB8, CHR 0xA1],
     [CHR 0xE0, CHR 0xB8, CHR 0xA1, CHR 0xE0, CHR 0xB8, CHR 0xB4, CHR 0xE0, CHR 0xB8, CHR 0x96,
      CHR 0xE0, CHR 0xB8, CHR 0xB8, CHR 0xE0, CHR 0xB8, CHR 0x99, CHR 0xE0, CHR 0xB8, CHR 0xB2,
      CHR 0xE0, CHR 0xB8, CHR 0xA2, CHR 0xE0, CHR 0xB8, CHR 0x99],
     [CHR 0xE0, CHR 0xB8, CHR 0x81, CHR 0xE0, CHR 0xB8, CHR 0xA3, CHR 0xE0, CHR 0xB8, CHR 0x81,
      CHR 0xE0, CHR 0xB8, CHR 0x8E, CHR 0xE0, CHR 0xB8, CHR 0xB2, CHR 0xE0, CHR 0xB8, CHR 0x84,
      CHR 0xE0, CHR 0xB8, CHR 0xA1],
     [CHR 0xE0, CHR 0xB8, CHR 0xAA, CHR 0xE0, CHR 0xB8, CHR 0xB4, CHR 0xE0, CHR 0xB8, CHR 0x87,
      CHR 0xE0, CHR 0xB8, CHR 0xAB, CHR 0xE0, CHR 0xB8, CHR 0xB2, CHR 0xE0, CHR 0xB8, CHR 0x84,
      CHR 0xE0, CHR 0xB8, CHR 0xA1],
     [CHR 0xE0, CHR 0xB8, CHR 0x81, CHR 0xE0, CHR 0xB8, CHR 0xB1, CHR 0xE0, CHR 0xB8, CHR 0x99,
      CHR 0xE0, CHR 0xB8, CHR 0xA2, CHR 0xE0, CHR 0xB8, CHR 0xB2, CHR 0xE0, CHR 0xB8, CHR 0xA2,
      CHR 0xE0, CHR 0xB8, CHR 0x99],
     [CHR 0xE0, CHR 0xB8, CHR 0x95, CHR 0xE0, CHR 0xB8, CHR 0xB8, CHR 0xE0, CHR 0xB8, CHR 0xA5,
      CHR 0xE0, CHR 0xB8, CHR 0xB2, CHR 0xE0, CHR 0xB8, CHR 0x84, CHR 0xE0, CHR 0xB8, CHR 0xA1],
     [CHR 0xE0, CHR 0xB8, CHR 0x9E, CHR 0xE0, CHR 0xB8, CHR 0xA4, CHR 0xE0, CHR 0xB8, CHR 0xA8,
      CHR 0xE0, CHR 0xB8, CHR 0x88, CHR 0xE0, CHR 0xB8, CHR 0xB4, CHR 0xE0, CHR 0xB8, CHR 0x81,
      CHR 0xE0, CHR 0xB8, CHR 0xB2, CHR 0xE0, CHR 0xB8, CHR 0xA2, CHR 0xE0, CHR 0xB8, CHR 0x99],
     [CHR 0xE0, CHR 0xB8, CHR 0x98, CHR 0xE0, CHR 0xB8, CHR 0xB1, CHR 0xE0, CHR 0xB8, CHR 0x99,
      CHR 0xE0, CHR 0xB8, CHR 0xA7, CHR 0xE0, CHR 0xB8, CHR 0xB2, CHR 0xE0, CHR 0xB8, CHR 0x84,
      CHR 0xE0, CHR 0xB8, CHR 0xA1]]"

definition th_justNow :: string where
  "th_justNow =
    [CHR 0xE0, CHR 0xB9, CHR 0x80, CHR 0xE0, CHR 0xB8, CHR 0xA1, CHR 0xE0, CHR 0xB8, CHR 0xB7,
     CHR 0xE0, CHR 0xB9, CHR 0x88, CHR 0xE0, CHR 0xB8, CHR 0xAD, CHR 0xE0, CHR 0xB8, CHR 0xAA,
     CHR 0xE0, CHR 0xB8, CHR 0xB1, CHR 0xE0, CHR 0xB8, CHR 0x81, CHR 0xE0, CHR 0xB8, CHR 0x84,
     CHR 0xE0, CHR 0xB8, CHR 0xA3, CHR 0xE0, CHR 0xB8, CHR 0xB9, CHR 0xE0, CHR 0xB9, CHR 0x88]"

definition th_minute_suffix :: string where
  "th_minute_suffix =
    [CHR 0x20, CHR 0xE0, CHR 0xB8, CHR 0x99, CHR 0xE0, CHR 0xB8, CHR 0xB2, CHR 0xE0, CHR 0xB8,
     CHR 0x97, CHR 0xE0, CHR 0xB8, CHR 0xB5, CHR 0xE0, CHR 0xB8, CHR 0x97, CHR 0xE0, CHR 0xB8,
     CHR 0xB5, CHR 0xE0, CHR 0xB9, CHR 0x88, CHR 0xE0, CHR 0xB9, CHR 0x81, CHR 0xE0, CHR 0xB8,
     CHR 0xA5, CHR 0xE0, CHR 0xB9, CHR 0x89, CHR 0xE0, CHR 0xB8, CHR 0xA7]"

definition th_hour_suffix :: string where
  "th_hour_suffix =
    [CHR 0x20, CHR 0xE0, CHR 0xB8, CHR 0x8A, CHR 0xE0, CHR 0xB8, CHR 0xB1, CHR 0xE0, CHR 0xB9,
     CHR 0x88, CHR 0xE0, CHR 0xB8, CHR 0xA7, CHR 0xE0, CHR 0xB9, CHR 0x82, CHR 0xE0, CHR 0xB8,
     CHR 0xA1, CHR 0xE0, CHR 0xB8, CHR 0x87, CHR 0xE0, CHR 0xB8, CHR 0x97, CHR 0xE0, CHR 0xB8,
     CHR 0xB5, CHR 0xE0, CHR 0xB9, CHR 0x88, CHR 0xE0, CHR 0xB9, CHR 0x81, CHR 0xE0, CHR 0xB8,
     CHR 0xA5, CHR 0xE0, CHR 0xB9, CHR 0x89, CHR 0xE0, CHR 0xB8, CHR 0xA7]"

definition th_day_suffix :: string where
  "th_day_suffix =
    [CHR 0x20, CHR 0xE0, CHR 0xB8, CHR 0xA7, CHR 0xE0, CHR 0xB8, CHR 0xB1, CHR 0xE0, CHR 0xB8,
     CHR 0x99, CHR 0xE0, CHR 0xB8, CHR 0x97, CHR 0xE0, CHR 0xB8, CHR 0xB5, CHR 0xE0, CHR 0xB9,
     CHR 0x88, CHR 0xE0, CHR 0xB8, CHR 0x9C, CHR 0xE0, CHR 0xB9, CHR 0x88, CHR 0xE0, CHR 0xB8,
     CHR 0xB2, CHR 0xE0, CHR 0xB8, CHR 0x99, CHR 0xE0, CHR 0xB8, CHR 0xA1, CHR 0xE0, CHR 0xB8,
     CHR 0xB2]"

definition th :: "host \<Rightarrow> lang_constants" where
  "th H =
     \<lparr>WEEKDAYS_ABBR = th_WEEKDAYS_ABBR, WEEKDAYS = th_WEEKDAYS,
      MONTHS_ABBR = th_MONTHS_ABBR, MONTHS = th_MONTHS,
      timeAgo = \<lparr>justNow = th_justNow,
                 minute = (\<lambda>min. ToString H (Num min) @ th_minute_suffix),
                 hour = (\<lambda>hours. ToString H (Num hours) @ th_hour_suffix),
                 day = (\<lambda>days. ToString H (Num days) @ th_day_suffix)\<rparr>\<rparr>"

definition ONE_DAY_IN_MILLISECONDS :: jsnum where
  "ONE_DAY_IN_MILLISECONDS = Fin 86400000"

section \<open>error.ts\<close>

text \<open>
  \<^verbatim>\<open>
  class FormatError extends Error {
    constructor(msg: string, at: string) {
      super();
      this.message = `Format error in ${at}:: ${msg}`;
    }
  }
  \<close>
  The file declares the class and exports nothing. A thrown value is one of the host's
  \<open>Error\<close> and \<open>ReferenceError\<close>, or this class, each with its message.
\<close>

datatype error = Error string | FormatError string | ReferenceError string

definition FormatError_new :: "string \<Rightarrow> string \<Rightarrow> error" where
  "FormatError_new msg fn = FormatError (''Format error in '' @ fn @ '':: '' @ msg)"

section \<open>types.ts\<close>

datatype SupportedLanguages = EN | TH

type_synonym DateTuple = "jsnum \<times> jsnum \<times> jsnum"

text \<open>A field of \<open>Time\<close> is a number or \<open>null\<close>.\<close>

record Time =
  hour :: "jsnum option"
  minute :: "jsnum option"

text \<open>Every field of the configuration may be absent.\<close>

record DateHelperConfig =
  lang :: "SupportedLanguages option"
  isUTC :: "bool option"
  useShortText :: "bool option"
  useBD :: "bool option"
  use12HourFormat :: "bool option"
  showSeconds :: "bool option"

definition no_config :: DateHelperConfig where
  "no_config =
     \<lparr>lang = None, isUTC = None, useShortText = None, useBD = None, use12HourFormat = None,
      showSeconds = None\<rparr>"

section \<open>index.ts\<close>

subsection \<open>Scope\<close>

text \<open>
  The values bound in the module scope of index.ts: its imports
  (\<^verbatim>\<open>moment\<close>; \<^verbatim>\<open>ONE_DAY_IN_MILLISECONDS\<close>, \<^verbatim>\<open>en as constantsEN\<close>,
  \<^verbatim>\<open>th as constantsTH\<close> from constants; \<^verbatim>\<open>padZero\<close> from utils; the imports from
  types are types only) and the class it declares.
\<close>

definition index_bindings :: "string list" where
  "index_bindings =
     [''moment'', ''ONE_DAY_IN_MILLISECONDS'', ''constantsEN'', ''constantsTH'', ''padZero'',
      ''DateHelper'']"

text \<open>
  The expression \<^verbatim>\<open>new FormatError(msg, at)\<close> in index.ts. The identifier is looked
  up in the module scope and then among the host's globals, which have no such name. Where
  the lookup fails the expression throws a \<open>ReferenceError\<close> before its arguments are
  evaluated. The result is the error that the enclosing \<^verbatim>\<open>throw\<close> statement raises,
  either way.
\<close>

definition new_FormatError :: "string \<Rightarrow> string \<Rightarrow> error" where
  "new_FormatError msg fn =
     (if ''FormatError'' \<in> set index_bindings then FormatError_new msg fn
      else ReferenceError ''FormatError is not defined'')"

subsection \<open>Date objects\<close>

text \<open>
  A \<open>Date\<close> is a mutable object: \<open>setHours\<close> changes it in place, and \<open>getDate()\<close>
  hands out the very object an instance holds. The store maps a reference to the time
  value of the Date it denotes; \<open>new Date\<close> takes the next unused reference.
\<close>

record store =
  dates :: "nat \<Rightarrow> timevalue"
  next_ref :: nat

definition new_Date :: "timevalue \<Rightarrow> store \<Rightarrow> nat \<times> store" where
  "new_Date tv s = (next_ref s, s\<lparr>dates := (dates s)(next_ref s := tv), next_ref := Suc (next_ref s)\<rparr>)"

definition set_Date :: "nat \<Rightarrow> timevalue \<Rightarrow> store \<Rightarrow> store" where
  "set_Date r tv s = s\<lparr>dates := (dates s)(r := tv)\<rparr>"

text \<open>\<open>new Date()\<close> reads the clock; \<open>clock\<close> is its reading in milliseconds.\<close>

definition Date_now :: "int \<Rightarrow> jsnum" where
  "Date_now clock = Fin (of_int clock)"

subsection \<open>The class\<close>

record DateHelper =
  date :: nat
  defaultLang :: SupportedLanguages
  useShortText :: bool
  useBD :: bool
  use12HourFormat :: bool
  showSeconds :: bool

text \<open>The operator \<^verbatim>\<open>??\<close>.\<close>

definition nullish :: "'a option \<Rightarrow> 'a \<Rightarrow> 'a" where
  "nullish x d = (case x of None \<Rightarrow> d | Some v \<Rightarrow> v)"

text \<open>
  \<^verbatim>\<open>
  constructor(dateStringOrNumberInMs?: string | number, config: Partial<DateHelperConfig> = {}) {
    if (dateStringOrNumberInMs != null) {
      const ts = +dateStringOrNumberInMs;
      if (isNaN(ts)) {
        const parsedDate = Date.parse(dateStringOrNumberInMs as string);
        if (isNaN(parsedDate)) throw new Error("Invalid date string or number provided.");
        this.date = new Date(parsedDate);
      } else this.date = new Date(ts);
    } else this.date = new Date();

    if (config.isUTC) {
      const browserOffset = new Date().getTimezoneOffset();
      const offsetInMs = browserOffset * 60 * 1000;
      this.date = new Date(this.date.getTime() - offsetInMs);
    }

    if (config.lang) this.defaultLang = config.lang;
    if (config.useShortText != null) this.useShortText = config.useShortText;
    if (config.useBD != null) this.useBD = config.useBD;
    if (config.use12HourFormat != null) {
      this.use12HourFormat = config.use12HourFormat;
    }
    if (config.showSeconds != null) this.showSeconds = config.showSeconds;
    if (this.defaultLang === "th") moment.locale("th");
  }
  \<close>
  The first statement, which creates the backing Date or throws. \<open>Date.parse\<close> converts
  its argument to a string first. The call \<^verbatim>\<open>moment.locale\<close> sets the locale of the
  moment library, which no method modelled here reads.
\<close>

definition initial_Date ::
  "host \<Rightarrow> int \<Rightarrow> jsval option \<Rightarrow> store \<Rightarrow> error + (nat \<times> store)" where
  "initial_Date H clock dateStringOrNumberInMs s =
     (case dateStringOrNumberInMs of
        Some v \<Rightarrow>
          (let ts = ToNumber v
           in if isNaN ts then
                (let parsedDate = Date_parse H (ToString H v)
                 in if isNaN parsedDate then Inl (Error ''Invalid date string or number provided.'')
                    else Inr (new_Date (Date_of_number parsedDate) s))
              else Inr (new_Date (Date_of_number ts) s))
      | None \<Rightarrow> Inr (new_Date (Date_of_number (Date_now clock)) s))"

definition adjust_UTC :: "host \<Rightarrow> int \<Rightarrow> DateHelperConfig \<Rightarrow> nat \<times> store \<Rightarrow> nat \<times> store" where
  "adjust_UTC H clock config ds =
     (case ds of
        (d, s) \<Rightarrow>
          if isUTC config = Some True then
            (let (tmp, s1) = new_Date (Date_of_number (Date_now clock)) s;
                 browserOffset = Date_getTimezoneOffset H (dates s1 tmp);
                 offsetInMs = num_mul (num_mul browserOffset (Fin 60)) (Fin 1000)
             in new_Date (Date_of_number (num_sub (Date_getTime (dates s1 d)) offsetInMs)) s1)
          else (d, s))"

definition DateHelper_new ::
  "host \<Rightarrow> int \<Rightarrow> jsval option \<Rightarrow> DateHelperConfig \<Rightarrow> store \<Rightarrow> error + (DateHelper \<times> store)" where
  "DateHelper_new H clock dateStringOrNumberInMs config s =
     (case initial_Date H clock dateStringOrNumberInMs s of
        Inl e \<Rightarrow> Inl e
      | Inr ds \<Rightarrow>
          (let (d, s1) = adjust_UTC H clock config ds
           in Inr (\<lparr>date = d,
                    defaultLang = nullish (lang config) EN,
                    useShortText = nullish (DateHelperConfig.useShortText config) False,
                    useBD = nullish (DateHelperConfig.useBD config) False,
                    use12HourFormat = nullish (DateHelperConfig.use12HourFormat config) False,
                    showSeconds = nullish (DateHelperConfig.showSeconds config) False\<rparr>,
                   s1)))"

text \<open>
  \<^verbatim>\<open>getDate = (): Date => this.date;\<close> returns the reference itself, and
  \<^verbatim>\<open>toMs = (): number => this.date.getTime();\<close> reads the Date it denotes.
\<close>

definition getDate :: "DateHelper \<Rightarrow> nat" where
  "getDate this = date this"

definition toMs :: "store \<Rightarrow> DateHelper \<Rightarrow> jsnum" where
  "toMs s this = Date_getTime (dates s (date this))"

text \<open>
  \<^verbatim>\<open>
  toDateTuple = (): DateTuple => [
    this.date.getFullYear(),
    this.date.getMonth() + 1,
    this.date.getDate(),
  ];
  \<close>
\<close>

definition toDateTuple :: "host \<Rightarrow> store \<Rightarrow> DateHelper \<Rightarrow> DateTuple" where
  "toDateTuple H s this =
     (Date_getFullYear H (dates s (date this)),
      num_add (Date_getMonth H (dates s (date this))) (Fin 1),
      Date_getDate H (dates s (date this)))"

text \<open>
  \<^verbatim>\<open>
  static deltaMinutes = (d1: DateHelper, d2: DateHelper) => {
    const dd1 = +d1.date;
    const dd2 = +d2.date;
    const deltaMs = dd1 - dd2;
    const deltaMin = Math.round(deltaMs / 6e4);
    return deltaMin;
  };
  \<close>
\<close>

definition deltaMinutes :: "store \<Rightarrow> DateHelper \<Rightarrow> DateHelper \<Rightarrow> jsnum" where
  "deltaMinutes s d1 d2 =
     (let dd1 = Date_getTime (dates s (date d1));
          dd2 = Date_getTime (dates s (date d2));
          deltaMs = num_sub dd1 dd2;
          deltaMin = Math_round (num_div deltaMs (Fin 60000))
      in deltaMin)"

text \<open>
  \<^verbatim>\<open>
  static fromDateTupleAndTime = (tuple: DateTuple, time?: Time): DateHelper => {
    const [y, m, d] = tuple;
    const date = new Date(y, m - 1, d, time?.hour ?? 0, time?.minute ?? 0);
    return new DateHelper(+date);
  };
  \<close>
\<close>

definition fromDateTupleAndTime ::
  "host \<Rightarrow> int \<Rightarrow> DateTuple \<Rightarrow> Time option \<Rightarrow> store \<Rightarrow> error + (DateHelper \<times> store)" where
  "fromDateTupleAndTime H clock tuple time s =
     (case tuple of
        (y, m, d) \<Rightarrow>
          (let (dt, s1) =
                 new_Date
                   (Date_of_fields H y (num_sub m (Fin 1)) d
                      (nullish (case time of None \<Rightarrow> None | Some t \<Rightarrow> hour t) (Fin 0))
                      (nullish (case time of None \<Rightarrow> None | Some t \<Rightarrow> minute t) (Fin 0)))
                   s
           in DateHelper_new H clock (Some (Num (Date_getTime (dates s1 dt)))) no_config s1))"

text \<open>
  \<^verbatim>\<open>
  static timeStringToTime = (timeString: string): Time => {
    const fnName = "timeStringToTime";
    try {
      const [h, m] = timeString.split(":");
      if (isNaN(+h) || isNaN(+m)) {
        throw new FormatError(`either hour or time in timeString is NaN [${timeString}]`, fnName);
      }
      const hh = +h,
        mm = +m;
      if (hh < 0 || hh > 23) {
        throw new FormatError(`Invalid hour [${hh}]`, fnName);
      }
      if (mm < 0 || mm > 59) {
        throw new FormatError(`Invalid minute [${mm}]`, fnName);
      }
      return { hour: hh, minute: mm };
    } catch (error) {
      throw new FormatError(`Invalid time format: ${timeString}`, fnName);
    }
  };
  \<close>
  \<open>String_split\<close> is \<^verbatim>\<open>split\<close> with a one-character separator; destructuring reads
  a missing element as \<open>undefined\<close>.
\<close>

fun String_split :: "char \<Rightarrow> string \<Rightarrow> string list" where
  "String_split sep [] = [[]]"
| "String_split sep (c # cs) =
     (if c = sep then [] # String_split sep cs
      else (case String_split sep cs of [] \<Rightarrow> [[c]] | p # ps \<Rightarrow> (c # p) # ps))"

definition element :: "string list \<Rightarrow> nat \<Rightarrow> jsval" where
  "element xs i = (if i < length xs then Str (xs ! i) else Undefined)"

definition timeStringToTime_try :: "host \<Rightarrow> string \<Rightarrow> error + Time" where
  "timeStringToTime_try H timeString =
     (let fnName = ''timeStringToTime'';
          h = element (String_split (CHR '':'') timeString) 0;
          m = element (String_split (CHR '':'') timeString) 1
      in if isNaN (ToNumber h) \<or> isNaN (ToNumber m) then
           Inl (new_FormatError
                  (''either hour or time in timeString is NaN ['' @ timeString @ '']'') fnName)
         else
           (let hh = ToNumber h;
                mm = ToNumber m
            in if num_lt hh (Fin 0) \<or> num_gt hh (Fin 23) then
                 Inl (new_FormatError (''Invalid hour ['' @ ToString H (Num hh) @ '']'') fnName)
               else if num_lt mm (Fin 0) \<or> num_gt mm (Fin 59) then
                 Inl (new_FormatError (''Invalid minute ['' @ ToString H (Num mm) @ '']'') fnName)
               else Inr \<lparr>hour = Some hh, minute = Some mm\<rparr>))"

definition timeStringToTime :: "host \<Rightarrow> string \<Rightarrow> error + Time" where
  "timeStringToTime H timeString =
     (case timeStringToTime_try H timeString of
        Inl e \<Rightarrow> Inl (new_FormatError (''Invalid time format: '' @ timeString) ''timeStringToTime'')
      | Inr t \<Rightarrow> Inr t)"

text \<open>
  \<^verbatim>\<open>
  static isTimePastForDate = (time: Time, date: DateHelper = DateHelper.now()): boolean => {
    const cmp = new DateHelper(date.toMs());
    cmp.getDate().setHours(time.hour ?? 0, time.minute ?? 0, 0, 0);
    return Date.now() > cmp.toMs();
  };
  \<close>
  The model takes the \<open>date\<close> argument as given and returns the store the call leaves.
\<close>

definition isTimePastForDate ::
  "host \<Rightarrow> int \<Rightarrow> Time \<Rightarrow> DateHelper \<Rightarrow> store \<Rightarrow> error + (bool \<times> store)" where
  "isTimePastForDate H clock time dateArg s =
     (case DateHelper_new H clock (Some (Num (toMs s dateArg))) no_config s of
        Inl e \<Rightarrow> Inl e
      | Inr (cmp, s1) \<Rightarrow>
          (let s2 = set_Date (getDate cmp)
                      (Date_setHours H (dates s1 (getDate cmp))
                         (nullish (hour time) (Fin 0)) (nullish (minute time) (Fin 0))
                         (Fin 0) (Fin 0))
                      s1
           in Inr (num_gt (Date_now clock) (toMs s2 cmp), s2)))"

text \<open>
  \<^verbatim>\<open>
  getLanguageConstants = () => {
    switch (this.defaultLang) {
      case "en":
        return constantsEN;
      case "th":
        return constantsTH;
      default:
        return constantsEN;
    }
  };
  \<close>
\<close>

definition getLanguageConstants :: "host \<Rightarrow> DateHelper \<Rightarrow> lang_constants" where
  "getLanguageConstants H this = (case defaultLang this of EN \<Rightarrow> en H | TH \<Rightarrow> th H)"

text \<open>
  \<^verbatim>\<open>
  getDaysCountInMonth = (): number => {
    const [year, month] = this.toDateTuple();
    const monthWith30Days = [4, 6, 9, 11];

    const isLeapYear = (year % 4 === 0 && year % 100 !== 0) || year % 400 === 0;

    if (month === 2) return isLeapYear ? 29 : 28;
    return monthWith30Days.includes(month) ? 30 : 31;
  };
  \<close>
\<close>

definition getDaysCountInMonth :: "host \<Rightarrow> store \<Rightarrow> DateHelper \<Rightarrow> jsnum" where
  "getDaysCountInMonth H s this =
     (case toDateTuple H s this of
        (year, month, _) \<Rightarrow>
          (let monthWith30Days = [Fin 4, Fin 6, Fin 9, Fin 11];
               isLeapYear =
                 ((num_eq (num_rem year (Fin 4)) (Fin 0) \<and> \<not> num_eq (num_rem year (Fin 100)) (Fin 0))
                  \<or> num_eq (num_rem year (Fin 400)) (Fin 0))
           in if num_eq month (Fin 2) then (if isLeapYear then Fin 29 else Fin 28)
              else if month \<in> set monthWith30Days then Fin 30
              else Fin 31))"

text \<open>
  \<^verbatim>\<open>
  getBDYear = (): number => {
    const year = this.date.getFullYear();
    return year + 543;
  };
  getADYear = (): number => {
    const year = this.date.getFullYear();
    return year;
  };
  \<close>
\<close>

definition getBDYear :: "host \<Rightarrow> store \<Rightarrow> DateHelper \<Rightarrow> jsnum" where
  "getBDYear H s this = (let year = Date_getFullYear H (dates s (date this)) in num_add year (Fin 543))"

definition getADYear :: "host \<Rightarrow> store \<Rightarrow> DateHelper \<Rightarrow> jsnum" where
  "getADYear H s this = (let year = Date_getFullYear H (dates s (date this)) in year)"

text \<open>
  \<^verbatim>\<open>
  getMonthName = (): string => {
    const month = this.date.getMonth();
    const { MONTHS, MONTHS_ABBR } = this.getLanguageConstants();
    if (this.useShortText) return MONTHS_ABBR[month];
    return MONTHS[month];
  };
  \<close>
  Indexing an array with a number that is not one of its indices gives \<open>undefined\<close>.
\<close>

definition array_index :: "string list \<Rightarrow> jsnum \<Rightarrow> jsval" where
  "array_index xs n =
     (case n of
        Fin q \<Rightarrow>
          if of_int \<lfloor>q\<rfloor> = q \<and> 0 \<le> q \<and> nat \<lfloor>q\<rfloor> < length xs then Str (xs ! nat \<lfloor>q\<rfloor>)
          else Undefined
      | _ \<Rightarrow> Undefined)"

definition getMonthName :: "host \<Rightarrow> store \<Rightarrow> DateHelper \<Rightarrow> jsval" where
  "getMonthName H s this =
     (let month = Date_getMonth H (dates s (date this))
      in if useShortText this then array_index (MONTHS_ABBR (getLanguageConstants H this)) month
         else array_index (MONTHS (getLanguageConstants H this)) month)"

text \<open>
  \<^verbatim>\<open>
  getDisplayDate = (): string => {
    const date = this.date.getDate();
    const year = this.useBD ? this.getBDYear() : this.getADYear();

    const monthString = this.getMonthName();
    const yearString = this.useShortText ? year % 100 : year;

    return `${padZero(date)} ${monthString} ${yearString}`;
  };
  \<close>
\<close>

definition getDisplayDate :: "host \<Rightarrow> store \<Rightarrow> DateHelper \<Rightarrow> string" where
  "getDisplayDate H s this =
     (let dt = Date_getDate H (dates s (date this));
          year = (if useBD this then getBDYear H s this else getADYear H s this);
          monthString = getMonthName H s this;
          yearString = (if useShortText this then num_rem year (Fin 100) else year)
      in ToString H (padZero H (Num dt)) @ '' '' @ ToString H monthString @ '' ''
         @ ToString H (Num yearString))"

text \<open>
  \<^verbatim>\<open>
  getDisplayTime = (): string => {
    let hours: number | string = this.date.getHours();
    let minutes: number | string = this.date.getMinutes();
    let seconds: number | string = this.date.getSeconds();

    let period = "";

    if (!this.use12HourFormat) {
      hours = padZero(hours);
    } else {
      period = hours >= 12 ? "PM" : "AM";
      hours = padZero(hours % 12 || 12);
    }

    minutes = padZero(minutes);

    let formattedTime = `${hours}:${minutes}`;

    if (this.showSeconds) {
      seconds = padZero(seconds);
      formattedTime += `:${seconds}`;
    }

    if (this.use12HourFormat) {
      formattedTime += ` ${period}`;
    }

    return formattedTime;
  };
  \<close>
  Each assignment to a variable is a new binding, primed.
\<close>

definition getDisplayTime :: "host \<Rightarrow> store \<Rightarrow> DateHelper \<Rightarrow> string" where
  "getDisplayTime H s this =
     (let hours = Date_getHours H (dates s (date this));
          minutes = Date_getMinutes H (dates s (date this));
          seconds = Date_getSeconds H (dates s (date this));
          period = (if \<not> use12HourFormat this then []
                    else if num_ge hours (Fin 12) then ''PM'' else ''AM'');
          hours' = (if \<not> use12HourFormat this then padZero H (Num hours)
                    else padZero H (Num (if truthy (num_rem hours (Fin 12))
                                         then num_rem hours (Fin 12) else Fin 12)));
          minutes' = padZero H (Num minutes);
          formattedTime = ToString H hours' @ '':'' @ ToString H minutes';
          formattedTime' = (if showSeconds this
                            then formattedTime @ '':'' @ ToString H (padZero H (Num seconds))
                            else formattedTime);
          formattedTime'' = (if use12HourFormat this then formattedTime' @ '' '' @ period
                             else formattedTime')
      in formattedTime'')"

text \<open>
  \<^verbatim>\<open>
  getTimeRelativeToNow = (): string => {
    const now = new DateHelper(); // Current time
    const deltaMinutes = DateHelper.deltaMinutes(now, this);

    const { timeAgo } = this.getLanguageConstants();

    if (deltaMinutes < 1) {
      return timeAgo.justNow;
    } else if (deltaMinutes < 60) {
      return timeAgo.minute(deltaMinutes);
    } else if (deltaMinutes < 1440) {
      const hours = Math.floor(deltaMinutes / 60);
      return timeAgo.hour(hours);
    } else if (deltaMinutes < 43200) {
      const days = Math.floor(deltaMinutes / 1440);
      return timeAgo.day(days);
    } else {
      return this.getDisplayDate();
    }
  };
  \<close>
\<close>

definition getTimeRelativeToNow :: "host \<Rightarrow> int \<Rightarrow> store \<Rightarrow> DateHelper \<Rightarrow> error + string" where
  "getTimeRelativeToNow H clock s this =
     (case DateHelper_new H clock None no_config s of
        Inl e \<Rightarrow> Inl e
      | Inr (now, s1) \<Rightarrow>
          (let delta = deltaMinutes s1 now this;
               ago = timeAgo (getLanguageConstants H this)
           in Inr (if num_lt delta (Fin 1) then justNow ago
                   else if num_lt delta (Fin 60) then timeAgo.minute ago delta
                   else if num_lt delta (Fin 1440) then
                     (let hours = Math_floor (num_div delta (Fin 60)) in timeAgo.hour ago hours)
                   else if num_lt delta (Fin 43200) then
                     (let days = Math_floor (num_div delta (Fin 1440)) in timeAgo.day ago days)
                   else getDisplayDate H s1 this)))"

section \<open>Example objects\<close>

text \<open>
  A host for the concrete instances below: its zone is seven hours ahead of UTC all year
  (the zone of \<^verbatim>\<open>THAI_TIMEZONE_OFFSET\<close>), and its fallback parser accepts no string.
  No instance formats a number that is not an integer, so the last field is immaterial.
\<close>

definition example_host :: host where
  "example_host =
     \<lparr>offset_at_utc = (\<lambda>t. 25200000), offset_at_local = (\<lambda>t. 25200000),
      parse_fallback = (\<lambda>s. None), format_number = (\<lambda>q. [])\<rparr>"

text \<open>
  A host in the zone of Samoa in 2011: ten hours behind UTC until 2011-12-30T10:00Z (time
  value 1325239200000) and fourteen hours ahead from then on, so that the local day
  2011-12-30 does not exist. For a local time of the skipped day the host takes the
  offset before the transition, as ECMA-262 has it.
\<close>

definition samoa_host :: host where
  "samoa_host =
     \<lparr>offset_at_utc = (\<lambda>t. if t < 1325239200000 then - 36000000 else 50400000),
      offset_at_local = (\<lambda>t. if t < 1325289600000 then - 36000000 else 50400000),
      parse_fallback = (\<lambda>s. None), format_number = (\<lambda>q. [])\<rparr>"

text \<open>
  A host in the zone of Sao Paulo in 2018: three hours behind UTC until
  2018-11-04T03:00Z (time value 1541300400000) and two hours behind from then on, so
  that the local times from 00:00 to 00:59 of 2018-11-04 do not exist, while the day
  does. For a skipped local time the host takes the offset before the transition.
\<close>

definition sao_paulo_host :: host where
  "sao_paulo_host =
     \<lparr>offset_at_utc = (\<lambda>t. if t < 1541300400000 then - 10800000 else - 7200000),
      offset_at_local = (\<lambda>t. if t < 1541293200000 then - 10800000 else - 7200000),
      parse_fallback = (\<lambda>s. None), format_number = (\<lambda>q. [])\<rparr>"

definition empty_store :: store where
  "empty_store = \<lparr>dates = (\<lambda>r. None), next_ref = 0\<rparr>"

text \<open>An instance with the default configuration whose Date is the object \<open>r\<close>.\<close>

definition instance_of :: "nat \<Rightarrow> DateHelper" where
  "instance_of r =
     \<lparr>date = r, defaultLang = EN, useShortText = False, useBD = False, use12HourFormat = False,
      showSeconds = False\<rparr>"

text \<open>A store that holds exactly the Dates with the listed time values, in order.\<close>

definition store_of :: "timevalue list \<Rightarrow> store" where
  "store_of tvs = \<lparr>dates = (\<lambda>r. if r < length tvs then tvs ! r else None), next_ref = length tvs\<rparr>"

text \<open>
  What a method returns on an instance that has just been constructed; an error of the
  constructor is passed on.
\<close>

definition new_then :: "(store \<Rightarrow> DateHelper \<Rightarrow> 'a) \<Rightarrow> error + DateHelper \<times> store \<Rightarrow> error + 'a" where
  "new_then f r = (case r of Inl e \<Rightarrow> Inl e | Inr (this, s) \<Rightarrow> Inr (f s this))"

text \<open>The time value of the Date an instance holds.\<close>

definition time_value :: "store \<Rightarrow> DateHelper \<Rightarrow> timevalue" where
  "time_value s this = dates s (date this)"

text \<open>
  The host's zone has the local time \<open>t\<close> when converting \<open>t\<close> to UTC and back gives \<open>t\<close>
  again (no transition skips it), at an offset of at most a day.
\<close>

definition local_time_exists :: "host \<Rightarrow> int \<Rightarrow> bool" where
  "local_time_exists H t \<longleftrightarrow> LocalTime H (UTC H t) = t \<and> \<bar>offset_at_local H t\<bar> \<le> msPerDay"

text \<open>
  The host's zone has the local day \<open>D\<close> (a day number) when the instant that the host
  takes for the local midnight starting day \<open>D\<close> is the time value of a Date and lies,
  in local time, within day \<open>D\<close>. A transition that skips midnight moves the instant
  to a later time of the same day; one that skips the whole day moves it to the next.
\<close>

definition local_day_exists :: "host \<Rightarrow> int \<Rightarrow> bool" where
  "local_day_exists H D \<longleftrightarrow>
     \<bar>UTC H (msPerDay * D)\<bar> \<le> 8640000000000000 \<and>
     Day (LocalTime H (UTC H (msPerDay * D))) = D"

text \<open>Two decimal digits, for a number from 0 to 99.\<close>

definition two_digits :: "int \<Rightarrow> string" where
  "two_digits n = [''0123456789'' ! nat (n div 10), ''0123456789'' ! nat (n mod 10)]"

text \<open>The store after a call; a call that throws leaves the store as it was.\<close>

definition store_after :: "error + 'a \<times> store \<Rightarrow> store \<Rightarrow> store" where
  "store_after r s = (case r of Inl e \<Rightarrow> s | Inr (x, s') \<Rightarrow> s')"

section \<open>Properties\<close>

subsection \<open>Numbers\<close>

lemma num_lt_iff: "num_lt x (Fin c) \<longleftrightarrow> \<not> isNaN x \<and> \<not> num_ge x (Fin c)"
  by (cases x) (auto simp: isNaN_def num_ge_def)

lemmas eval_number =
  ToNumber_def isNaN_def num_ge_def num_gt_def ToString_def Number_toString_def
  is_safe_integer_def digits10.simps

lemmas eval_store = store_of_def instance_of_def

subsection \<open>Rounding to binary64\<close>

lemma bit_length_le: "n < 2 ^ k \<Longrightarrow> bit_length n \<le> k"
proof (induction k arbitrary: n)
  case 0
  then show ?case by (simp add: bit_length.simps)
next
  case (Suc k)
  from Suc.prems have "n div 2 < 2 ^ k" by simp
  then have "bit_length (n div 2) \<le> k" by (rule Suc.IH)
  then show ?case by (subst bit_length.simps) simp
qed

lemma bit_length_0: "bit_length 0 = 0"
  by (simp add: bit_length.simps)

lemma bit_length_1: "bit_length (Suc 0) = Suc 0"
  by (simp add: bit_length.simps [of "Suc 0"] bit_length_0)

lemma bit_length_numeral: "bit_length (numeral w) = Suc (bit_length (numeral w div 2))"
  by (subst bit_length.simps) simp

lemma floor_rat_numeral: "\<lfloor>(numeral a :: rat) / numeral b\<rfloor> = numeral a div numeral b"
  using floor_divide_of_int_eq [of "numeral a" "numeral b", where ?'a = rat] by simp

lemmas eval_bits = bit_length_0 bit_length_1 bit_length_numeral floor_rat_numeral

lemma round_half_even_of_int: "round_half_even (of_int k) = k"
  by (simp add: round_half_even_def)

text \<open>A value within half a unit of an integer rounds to it.\<close>

lemma round_half_even_near:
  assumes "of_int k - 1 / 2 < x" and "x < of_int k + 1 / 2"
  shows "round_half_even x = k"
proof -
  have "\<lfloor>x\<rfloor> = k \<or> \<lfloor>x\<rfloor> = k - 1"
    using assms by linarith
  then show ?thesis
  proof
    assume f: "\<lfloor>x\<rfloor> = k"
    have "x - of_int k < 1 / 2"
      using assms(2) by simp
    then show ?thesis
      by (simp add: round_half_even_def f)
  next
    assume f: "\<lfloor>x\<rfloor> = k - 1"
    have "1 / 2 < x - of_int (k - 1)"
      using assms(1) by simp
    then show ?thesis
      by (simp add: round_half_even_def f Let_def)
  qed
qed

lemma pow2_nonpos: "e \<le> 0 \<Longrightarrow> pow2 e = 1 / 2 ^ nat (- e)"
  by (simp add: pow2_def)

text \<open>An integer below \<open>2^53\<close> in magnitude is a binary64 value.\<close>

lemma round_binary64_of_int:
  assumes "\<bar>n\<bar> < 9007199254740992"
  shows "round_binary64 (of_int n) = Fin (of_int n)"
proof (cases "n = 0")
  case True
  then show ?thesis by (simp add: round_binary64_def)
next
  case False
  define a where "a = \<bar>n\<bar>"
  have a: "1 \<le> a" "a < 2 ^ 53" "\<bar>of_int n :: rat\<bar> = of_int a"
    using False assms by (simp_all add: a_def)
  have "nat a < 2 ^ 53"
    using a(1,2) by (simp add: nat_less_iff)
  then have "bit_length (nat a) \<le> 53"
    by (rule bit_length_le)
  then have fl: "floor_log2 (of_int a) \<le> 52"
    using a(1) by (simp add: floor_log2_def)
  define e where "e = max (floor_log2 (of_int a) - 52) (- 1074)"
  have e: "e \<le> 0"
    using fl by (simp add: e_def)
  define j where "j = nat (- e)"
  have scaled: "(of_int a :: rat) / pow2 e = of_int (a * 2 ^ j)"
    by (simp add: pow2_nonpos [OF e] j_def)
  have r: "of_int (round_half_even (of_int a / pow2 e)) * pow2 e = (of_int a :: rat)"
    unfolding scaled round_half_even_of_int by (simp add: pow2_nonpos [OF e] j_def)
  have small: "\<not> (2 :: rat) ^ 1024 \<le> of_int a"
  proof -
    have "(of_int a :: rat) < of_int (2 ^ 53)"
      using a(2) by (simp only: of_int_less_iff)
    also have "\<dots> \<le> 2 ^ 1024"
      by simp
    finally show ?thesis by simp
  qed
  have "round_binary64 (of_int n) = Fin (if n < 0 then - of_int a else of_int a)"
    using False small
    by (simp add: round_binary64_def a(3) e_def [symmetric] r Let_def)
  then show ?thesis
    by (simp add: a_def)
qed

lemma round_binary64_numeral:
  "(numeral w :: int) < 9007199254740992 \<Longrightarrow> round_binary64 (numeral w) = Fin (numeral w)"
  using round_binary64_of_int [of "numeral w"] by simp

lemma round_binary64_0: "round_binary64 0 = Fin 0"
  by (simp add: round_binary64_def)

lemma round_binary64_1: "round_binary64 1 = Fin 1"
  using round_binary64_of_int [of 1] by simp

text \<open>
  The Number value for a positive \<open>q\<close>, given its exponent and the rounded scaled
  value.
\<close>

lemma round_binary64_scaled:
  assumes "0 < q" and "e = max (floor_log2 q - 52) (- 1074)"
    and "round_half_even (q / pow2 e) = m" and "of_int m * pow2 e < 2 ^ 1024"
  shows "round_binary64 q = Fin (of_int m * pow2 e)"
  using assms(1,3,4) by (simp add: round_binary64_def assms(2) [symmetric] Let_def)

lemma round_binary64_nearest:
  assumes "0 < q" and "e = max (floor_log2 q - 52) (- 1074)"
    and "of_int m - 1 / 2 < q / pow2 e" and "q / pow2 e < of_int m + 1 / 2"
    and "of_int m * pow2 e < 2 ^ 1024"
  shows "round_binary64 q = Fin (of_int m * pow2 e)"
  using assms(1,2) round_half_even_near [OF assms(3,4)] assms(5) by (rule round_binary64_scaled)

lemmas eval_string =
  StringToNumber_def trim_def trim_start.simps trim_end.simps ws_len_def ws_len_end_def ws1_def
  ws2_def ws3_def unsigned_decimal_def is_digit_def exponent_part_def digits_val_def
  digit_val_def pow10_def round_binary64_numeral round_binary64_0 round_binary64_1

text \<open>
  Three numeric strings that are not binary64 values: the first rounds up to 10, the
  second down to the largest time value, and the third lies halfway between two binary64
  values and goes to the even one.
\<close>

lemma StringToNumber_rounds_up: "StringToNumber ''9.9999999999999999999'' = Fin 10"
proof -
  have "StringToNumber ''9.9999999999999999999''
      = round_binary64 (99999999999999999999 / 10000000000000000000)"
    by (simp add: eval_string)
  also have "\<dots> = Fin (of_int 5629499534213120 * pow2 (- 49))"
    by (rule round_binary64_nearest) (simp_all add: floor_log2_def eval_bits pow2_def)
  also have "\<dots> = Fin 10"
    by (simp add: pow2_def)
  finally show ?thesis .
qed

lemma StringToNumber_rounds_down: "StringToNumber ''8640000000000000.4'' = Fin 8640000000000000"
proof -
  have "StringToNumber ''8640000000000000.4'' = round_binary64 (43200000000000002 / 5)"
    by (simp add: eval_string)
  also have "\<dots> = Fin (of_int 8640000000000000 * pow2 0)"
    by (rule round_binary64_nearest) (simp_all add: floor_log2_def eval_bits pow2_def)
  also have "\<dots> = Fin 8640000000000000"
    by (simp add: pow2_def)
  finally show ?thesis .
qed

lemma StringToNumber_tie: "StringToNumber ''4503599627370497.5'' = Fin 4503599627370498"
proof -
  have "StringToNumber ''4503599627370497.5'' = round_binary64 (9007199254740995 / 2)"
    by (simp add: eval_string)
  also have "\<dots> = Fin (of_int 4503599627370498 * pow2 0)"
    by (rule round_binary64_scaled)
      (simp_all add: floor_log2_def eval_bits pow2_def round_half_even_def)
  also have "\<dots> = Fin 4503599627370498"
    by (simp add: pow2_def)
  finally show ?thesis .
qed

subsection \<open>padZero\<close>

text \<open>
  C7, as amended. For every input that the host can hold, a Number or a string,
  \<open>padZero\<close> returns \<open>0\<close> followed by the string form of its input exactly when the
  numeric value of the input (for a string, its value rounded to binary64) is below 10,
  which includes negative and fractional values; otherwise, when the value is 10 or
  more or is not a number, it returns the input itself, a number still a number.
\<close>

theorem padZero_pads_below_ten:
  assumes "host_value v"
  shows "padZero H v = (if num_lt (ToNumber v) (Fin 10) then Str (''0'' @ ToString H v) else v)"
  by (auto simp: padZero_def num_lt_iff)

text \<open>
  Witness for C7: a day of the month below ten, one above, and an invalid one; the
  strings \<open>"7"\<close> and \<open>"abc"\<close>; and a string whose value lies below 10 and rounds to 10.
\<close>

theorem padZero_pads_below_ten_witness:
  "padZero example_host (Num (Fin 7)) = Str ''07'' \<and>
   padZero example_host (Num (Fin 31)) = Num (Fin 31) \<and>
   padZero example_host (Num NaN) = Num NaN \<and>
   padZero example_host (Str ''7'') = Str ''07'' \<and>
   padZero example_host (Str ''abc'') = Str ''abc'' \<and>
   padZero example_host (Str ''9.9999999999999999999'') = Str ''9.9999999999999999999''"
proof -
  have "StringToNumber ''7'' = Fin 7" "StringToNumber ''abc'' = NaN"
    by (simp_all add: eval_string)
  then show ?thesis
    using padZero_pads_below_ten [where H = example_host and v = "Num (Fin 7)"]
      padZero_pads_below_ten [where H = example_host and v = "Num (Fin 31)"]
      padZero_pads_below_ten [where H = example_host and v = "Num NaN"]
      padZero_pads_below_ten [where H = example_host and v = "Str ''7''"]
      padZero_pads_below_ten [where H = example_host and v = "Str ''abc''"]
      padZero_pads_below_ten [where H = example_host and v = "Str ''9.9999999999999999999''"]
    by (simp add: eval_number StringToNumber_rounds_up host_value_def round_binary64_numeral)
qed

text \<open>
  Counterexample to C7 as stated: the number \<open>-5\<close> lies outside \<open>[0,9]\<close>, and it is
  padded, not returned unchanged.
\<close>

theorem padZero_negative_counterexample:
  "num_lt (ToNumber (Num (Fin (- 5)))) (Fin 0) \<and>
   padZero example_host (Num (Fin (- 5))) = Str ''0-5''"
  by (simp add: padZero_def eval_number)

subsection \<open>deltaMinutes\<close>

lemma round_minutes: "\<lfloor>(of_int x :: rat) / 60000 + 1 / 2\<rfloor> = (x + 30000) div 60000"
proof -
  have "(of_int x :: rat) / 60000 + 1 / 2 = of_int (x + 30000) / of_int 60000"
    by (simp add: field_simps)
  then show ?thesis
    by (simp only: floor_divide_of_int_eq)
qed

text \<open>Rounding the negated difference: the two roundings cancel except at a tie.\<close>

lemma round_minutes_negated:
  fixes x :: int
  shows "(- x + 30000) div 60000 =
         (if x mod 60000 = 30000 then 1 else 0) - (x + 30000) div 60000"
proof -
  define q where "q = (x + 30000) div 60000"
  define r where "r = (x + 30000) mod 60000"
  have x: "x + 30000 = 60000 * q + r" and r: "0 \<le> r" "r < 60000"
    by (simp_all add: q_def r_def)
  have xm: "x mod 60000 = (if r < 30000 then r + 30000 else r - 30000)"
  proof (cases "r < 30000")
    case True
    have "x = 60000 * (q - 1) + (r + 30000)" using x by simp
    then have "x mod 60000 = (r + 30000) mod 60000"
      by (metis mod_mult_self4)
    with True r show ?thesis by simp
  next
    case False
    have "x = 60000 * q + (r - 30000)" using x by simp
    then have "x mod 60000 = (r - 30000) mod 60000"
      by (metis mod_mult_self4)
    with False r show ?thesis by simp
  qed
  show ?thesis
  proof (cases "r = 0")
    case True
    have "- x + 30000 = 60000 * (1 - q) + 0" using x True by simp
    then have "(- x + 30000) div 60000 = 1 - q"
      by (metis add.right_neutral nonzero_mult_div_cancel_left zero_neq_numeral)
    with True xm show ?thesis by (simp add: q_def)
  next
    case False
    have "- x + 30000 = 60000 * (- q) + (60000 - r)" using x by simp
    moreover have "0 \<le> 60000 - r" "60000 - r < 60000" using r False by simp_all
    ultimately have "(- x + 30000) div 60000 = - q"
      by (metis int_div_pos_eq)
    moreover have "x mod 60000 \<noteq> 30000" using xm False r by (simp split: if_splits)
    ultimately show ?thesis by (simp add: q_def)
  qed
qed

lemma deltaMinutes_valid:
  assumes "dates s (date d1) = Some a" and "dates s (date d2) = Some b"
  shows "deltaMinutes s d1 d2 = Fin (of_int ((a - b + 30000) div 60000))"
  using assms round_minutes [of "a - b"]
  by (simp add: deltaMinutes_def Date_getTime_def num_sub_def)

text \<open>
  C5, as amended. For two instances with valid Dates, at instants \<open>a\<close> and \<open>b\<close> less than
  \<open>2^53\<close> milliseconds apart (so that the subtraction is exact in binary64),
  \<open>deltaMinutes\<close> is \<open>(a - b) / 60000\<close> rounded to the nearest integer, a tie going
  toward \<open>+\<infinity>\<close>; it is 0 for an instance and itself; and
  \<open>deltaMinutes(a, b) = -deltaMinutes(b, a)\<close> holds unless \<open>a - b\<close> is a whole number
  of minutes plus exactly half a minute, where the two differ by one.
\<close>

theorem deltaMinutes_rounds_half_up:
  assumes "dates s (date d1) = Some a" and "dates s (date d2) = Some b"
    and "\<bar>a - b\<bar> < 9007199254740992"
  shows "deltaMinutes s d1 d2 = Fin (of_int ((a - b + 30000) div 60000)) \<and>
         deltaMinutes s d1 d1 = Fin 0 \<and>
         deltaMinutes s d1 d2 =
           (if (a - b) mod 60000 = 30000 then num_add (num_neg (deltaMinutes s d2 d1)) (Fin 1)
            else num_neg (deltaMinutes s d2 d1))"
proof -
  have 1: "deltaMinutes s d1 d2 = Fin (of_int ((a - b + 30000) div 60000))"
    using assms by (simp add: deltaMinutes_valid)
  have 2: "deltaMinutes s d2 d1 = Fin (of_int ((b - a + 30000) div 60000))"
    using assms by (simp add: deltaMinutes_valid)
  have 3: "deltaMinutes s d1 d1 = Fin 0"
    using assms deltaMinutes_valid [of s d1 a d1 a] by simp
  have "(b - a + 30000) div 60000 =
        (if (a - b) mod 60000 = 30000 then 1 else 0) - (a - b + 30000) div 60000"
    using round_minutes_negated [of "a - b"] by simp
  with 1 2 3 show ?thesis by simp
qed

text \<open>Witness for C5: two Dates a minute and a half apart.\<close>

theorem deltaMinutes_rounds_half_up_witness:
  "deltaMinutes (store_of [Some 90000, Some 0]) (instance_of 0) (instance_of 1) = Fin 2 \<and>
   deltaMinutes (store_of [Some 90000, Some 0]) (instance_of 1) (instance_of 0) = Fin (- 1) \<and>
   deltaMinutes (store_of [Some 90000, Some 0]) (instance_of 0) (instance_of 0) = Fin 0"
  using
    deltaMinutes_rounds_half_up
      [of "store_of [Some 90000, Some 0]" "instance_of 0" 90000 "instance_of 1" 0]
    deltaMinutes_rounds_half_up
      [of "store_of [Some 90000, Some 0]" "instance_of 1" 0 "instance_of 0" 90000]
  by (simp add: eval_store)

text \<open>
  Counterexample to C5 as stated: for Dates half a minute apart, \<open>deltaMinutes(a, b)\<close>
  is 1 and \<open>-deltaMinutes(b, a)\<close> is 0.
\<close>

theorem deltaMinutes_antisymmetry_counterexample:
  "deltaMinutes (store_of [Some 30000, Some 0]) (instance_of 0) (instance_of 1) = Fin 1 \<and>
   num_neg (deltaMinutes (store_of [Some 30000, Some 0]) (instance_of 1) (instance_of 0)) = Fin 0"
  by (simp add: deltaMinutes_valid eval_store)

subsection \<open>timeStringToTime\<close>

lemma new_FormatError_unbound:
  "new_FormatError msg fn = ReferenceError ''FormatError is not defined''"
  by (simp add: new_FormatError_def index_bindings_def)

text \<open>
  The function succeeds exactly when both segments are numeric, the hour is in
  \<open>[0,23]\<close> and the minute in \<open>[0,59]\<close>, and then returns both fields; every
  failure is the \<open>ReferenceError\<close> of the unbound class name.
\<close>

lemma timeStringToTime_cases:
  "timeStringToTime H timeString =
     (let hh = ToNumber (element (String_split (CHR '':'') timeString) 0);
          mm = ToNumber (element (String_split (CHR '':'') timeString) 1)
      in if isNaN hh \<or> isNaN mm \<or> num_lt hh (Fin 0) \<or> num_gt hh (Fin 23)
            \<or> num_lt mm (Fin 0) \<or> num_gt mm (Fin 59)
         then Inl (ReferenceError ''FormatError is not defined'')
         else Inr \<lparr>hour = Some hh, minute = Some mm\<rparr>)"
  by (simp add: timeStringToTime_def timeStringToTime_try_def new_FormatError_unbound Let_def)

lemma timeStringToTime_13_45:
  "timeStringToTime H ''13:45'' = Inr \<lparr>hour = Some (Fin 13), minute = Some (Fin 45)\<rparr>"
  by (simp add: timeStringToTime_cases element_def ToNumber_def eval_string isNaN_def num_gt_def)

text \<open>
  C3, the code at the failing inputs: \<open>"24:00"\<close> and \<open>"12:60"\<close> are rejected, and the
  error that reaches the caller is a \<open>ReferenceError\<close>, not a \<open>FormatError\<close>.
\<close>

theorem timeStringToTime_throws_ReferenceError:
  "timeStringToTime example_host ''24:00'' = Inl (ReferenceError ''FormatError is not defined'') \<and>
   timeStringToTime example_host ''12:60'' = Inl (ReferenceError ''FormatError is not defined'')"
  by (simp add: timeStringToTime_cases element_def ToNumber_def eval_string isNaN_def num_gt_def)

subsection \<open>The constructor\<close>

lemma StringToNumber_2024: "StringToNumber ''2024'' = Fin 2024"
  by (simp add: eval_string)

text \<open>
  C9. For an input that is a Number or a string of the host, the constructor throws exactly
  when the numeric coercion of the input is \<open>NaN\<close> and \<open>Date.parse\<close> of it is \<open>NaN\<close>
  too. Unless \<open>isUTC\<close> shifts it afterwards, the new Date holds the coerced number as
  its time value whenever that number is not \<open>NaN\<close>, whatever \<open>Date.parse\<close> would
  make of the input, and the parsed time value only otherwise.
\<close>

theorem constructor_coerces_first:
  assumes "v \<noteq> Undefined" and "host_value v"
  shows
  "(isl (DateHelper_new H clock (Some v) config s) \<longleftrightarrow>
      isNaN (ToNumber v) \<and> isNaN (Date_parse H (ToString H v))) \<and>
   (isUTC config \<noteq> Some True \<longrightarrow>
      new_then time_value (DateHelper_new H clock (Some v) config s) =
        (if \<not> isNaN (ToNumber v) then Inr (TimeClip (ToNumber v))
         else if isNaN (Date_parse H (ToString H v))
           then Inl (Error ''Invalid date string or number provided.'')
         else Inr (TimeClip (Date_parse H (ToString H v)))))"
  by (auto simp: DateHelper_new_def initial_Date_def adjust_UTC_def new_then_def time_value_def
      new_Date_def Date_of_number_def Let_def split: prod.splits)

lemma StringToNumber_abc: "StringToNumber ''abc'' = NaN"
  by (simp add: eval_string)

lemma Date_parse_abc: "Date_parse example_host ''abc'' = NaN"
  by (simp add: Date_parse_def parse_time_value_def iso_parse_def iso_year_part_def digits_n_def
      is_digit_def example_host_def Date_getTime_def)

text \<open>
  Witness for C9: the string \<open>"2024"\<close> becomes the instant 2024 ms after the epoch, not a
  date in the year 2024; the string \<open>"8640000000000000.4"\<close> is coerced to the largest
  time value, and \<open>"4503599627370497.5"\<close> to the even neighbour 4503599627370498; the
  string \<open>"abc"\<close> is neither a number nor a date, and the constructor throws.
\<close>

theorem constructor_coerces_first_witness:
  "new_then time_value
     (DateHelper_new example_host 0 (Some (Str ''2024'')) no_config empty_store) = Inr (Some 2024) \<and>
   new_then time_value
     (DateHelper_new example_host 0 (Some (Str ''8640000000000000.4'')) no_config empty_store)
     = Inr (Some 8640000000000000) \<and>
   new_then time_value
     (DateHelper_new example_host 0 (Some (Str ''4503599627370497.5'')) no_config empty_store)
     = Inr (Some 4503599627370498) \<and>
   new_then time_value
     (DateHelper_new example_host 0 (Some (Str ''abc'')) no_config empty_store)
     = Inl (Error ''Invalid date string or number provided.'')"
  using
    constructor_coerces_first [where v = "Str ''2024''" and H = example_host and clock = 0
      and config = no_config and s = empty_store]
    constructor_coerces_first [where v = "Str ''8640000000000000.4''" and H = example_host
      and clock = 0 and config = no_config and s = empty_store]
    constructor_coerces_first [where v = "Str ''4503599627370497.5''" and H = example_host
      and clock = 0 and config = no_config and s = empty_store]
    constructor_coerces_first [where v = "Str ''abc''" and H = example_host and clock = 0
      and config = no_config and s = empty_store]
  by (simp add: ToNumber_def ToString_def StringToNumber_2024 StringToNumber_rounds_down
      StringToNumber_tie
      StringToNumber_abc Date_parse_abc isNaN_def no_config_def TimeClip_def js_truncate_def
      host_value_def)

subsection \<open>isTimePastForDate\<close>

lemma Date_getTime_simps:
  "Date_getTime None = NaN" "Date_getTime (Some t) = Fin (of_int t)"
  by (simp_all add: Date_getTime_def)

text \<open>
  C10. \<open>isTimePastForDate\<close> leaves the time value of its \<open>date\<close> argument as it was:
  the comparison moment is set on the Date of a new instance, built from the number
  \<open>date.toMs()\<close>. The call returns unless the argument's Date is invalid (and the host
  does not parse the string \<open>"NaN"\<close>), in which case the constructor throws.
\<close>

theorem isTimePastForDate_keeps_date:
  assumes "date dateArg < next_ref s"
  shows "toMs (store_after (isTimePastForDate H clock time dateArg s) s) dateArg = toMs s dateArg \<and>
         (isl (isTimePastForDate H clock time dateArg s) \<longleftrightarrow>
            time_value s dateArg = None \<and> isNaN (Date_parse H ''NaN''))"
proof (cases "dates s (date dateArg)")
  case None
  with assms show ?thesis
    by (auto simp: isTimePastForDate_def DateHelper_new_def initial_Date_def adjust_UTC_def
        no_config_def store_after_def toMs_def set_Date_def new_Date_def getDate_def
        time_value_def ToNumber_def ToString_def Number_toString_def Date_getTime_simps Let_def
        isNaN_def split: sum.splits prod.splits)
next
  case (Some t)
  with assms show ?thesis
    by (auto simp: isTimePastForDate_def DateHelper_new_def initial_Date_def adjust_UTC_def
        no_config_def store_after_def toMs_def set_Date_def new_Date_def getDate_def
        time_value_def ToNumber_def Date_getTime_simps Let_def isNaN_def
        split: sum.splits prod.splits)
qed

text \<open>
  Witness for C10: the argument keeps its instant, and the new Date holds 10:30 of the same
  local day.
\<close>

theorem isTimePastForDate_keeps_date_witness:
  "toMs (store_after
           (isTimePastForDate example_host 1709226000000
              \<lparr>hour = Some (Fin 10), minute = Some (Fin 30)\<rparr>
              (instance_of 0) (store_of [Some 1709226000000]))
           (store_of [Some 1709226000000]))
     (instance_of 0) = Fin 1709226000000 \<and>
   dates (store_after
           (isTimePastForDate example_host 1709226000000
              \<lparr>hour = Some (Fin 10), minute = Some (Fin 30)\<rparr>
              (instance_of 0) (store_of [Some 1709226000000]))
           (store_of [Some 1709226000000])) 1 = Some 1709263800000"
proof -
  have "toMs (store_after
           (isTimePastForDate example_host 1709226000000
              \<lparr>hour = Some (Fin 10), minute = Some (Fin 30)\<rparr>
              (instance_of 0) (store_of [Some 1709226000000]))
           (store_of [Some 1709226000000]))
     (instance_of 0) = Fin 1709226000000"
    using isTimePastForDate_keeps_date [of "instance_of 0" "store_of [Some 1709226000000]"
        example_host 1709226000000 "\<lparr>hour = Some (Fin 10), minute = Some (Fin 30)\<rparr>"]
    by (simp add: eval_store toMs_def Date_getTime_simps)
  moreover have "dates (store_after
           (isTimePastForDate example_host 1709226000000
              \<lparr>hour = Some (Fin 10), minute = Some (Fin 30)\<rparr>
              (instance_of 0) (store_of [Some 1709226000000]))
           (store_of [Some 1709226000000])) 1 = Some 1709263800000"
    by (simp add: isTimePastForDate_def DateHelper_new_def initial_Date_def adjust_UTC_def
        no_config_def store_after_def toMs_def set_Date_def new_Date_def getDate_def
        ToNumber_def Date_getTime_simps Date_of_number_def TimeClip_def js_truncate_def
        isNaN_def nullish_def eval_store Date_setHours_def clip_local_def MakeDate_def
        MakeTime_def finite_int_def UTC_def LocalTime_def Day_def example_host_def
        msPerDay_def msPerHour_def msPerMinute_def msPerSecond_def)
  ultimately show ?thesis by simp
qed

subsection \<open>getDisplayTime\<close>

lemma digits10_small: "n < 10 \<Longrightarrow> digits10 n = [''0123456789'' ! n]"
  by (simp add: digits10.simps)

lemma digits10_two: "10 \<le> n \<Longrightarrow> n < 100 \<Longrightarrow> digits10 n = [''0123456789'' ! (n div 10), ''0123456789'' ! (n mod 10)]"
  by (subst digits10.simps) (simp add: digits10_small)

lemma safe_of_int: "\<bar>n\<bar> < 9007199254740992 \<Longrightarrow> is_safe_integer (of_int n)"
  unfolding is_safe_integer_def
  by (simp flip: of_int_abs)

lemma padZero_two_digits:
  assumes "0 \<le> n" and "n < 100"
  shows "ToString H (padZero H (Num (Fin (of_int n)))) = two_digits n"
proof (cases "n < 10")
  case True
  have "is_safe_integer (of_int n)" using assms by (intro safe_of_int) simp
  moreover have "nat n < 10" using True assms by simp
  moreover have "n div 10 = 0" "n mod 10 = n" using True assms by simp_all
  ultimately show ?thesis
    using True assms
    by (simp add: padZero_def ToNumber_def isNaN_def num_ge_def ToString_def Number_toString_def
        two_digits_def digits10_small)
next
  case False
  have "is_safe_integer (of_int n)" using assms by (intro safe_of_int) simp
  moreover have "10 \<le> nat n" "nat n < 100" using False assms by simp_all
  moreover have "nat (n div 10) = nat n div 10" "nat (n mod 10) = nat n mod 10"
    using assms by (simp_all add: nat_div_distrib nat_mod_distrib)
  ultimately show ?thesis
    using False assms
    by (simp add: padZero_def ToNumber_def isNaN_def num_ge_def ToString_def Number_toString_def
        two_digits_def digits10_two)
qed

lemma num_rem_nonneg:
  assumes "0 \<le> n" and "0 < d"
  shows "num_rem (Fin (of_int n)) (Fin (of_int d)) = Fin (of_int (n mod d))"
proof -
  have "(0::rat) \<le> of_int n / of_int d" using assms by simp
  then have "js_truncate (of_int n / of_int d) = n div d"
    by (simp add: js_truncate_def floor_divide_of_int_eq)
  moreover have "n - d * (n div d) = n mod d"
    by (simp add: minus_mult_div_eq_mod)
  ultimately show ?thesis
    using assms by (simp flip: of_int_mult of_int_diff)
qed

lemma HourFromTime_range: "0 \<le> HourFromTime t \<and> HourFromTime t < 24"
  by (simp add: HourFromTime_def)

lemma MinFromTime_range: "0 \<le> MinFromTime t \<and> MinFromTime t < 60"
  by (simp add: MinFromTime_def)

lemma SecFromTime_range: "0 \<le> SecFromTime t \<and> SecFromTime t < 60"
  by (simp add: SecFromTime_def)

lemma hour12:
  assumes "0 \<le> h" "h < 24"
  shows "(if truthy (num_rem (Fin (of_int h)) (Fin 12)) then num_rem (Fin (of_int h)) (Fin 12) else Fin 12)
         = Fin (of_int (if h mod 12 = 0 then 12 else h mod 12))"
  using assms num_rem_nonneg [of h 12] by (simp add: truthy_def)

text \<open>
  C8. For an instance with a valid Date at local hour \<open>h\<close>, minute \<open>m\<close> and second
  \<open>sec\<close>, \<open>getDisplayTime\<close> is the two-digit hour, a colon and the two-digit minute,
  then a colon and the two-digit second exactly when \<open>showSeconds\<close> is set, then a space
  and \<open>AM\<close> or \<open>PM\<close> exactly when \<open>use12HourFormat\<close> is set. In 12-hour mode the
  hour shown is \<open>h mod 12\<close>, with 12 in place of 0: midnight and noon read \<open>12\<close>. An
  invalid Date gives the same shape with \<open>NaN\<close> for each field, the 12-hour hour being
  \<open>12\<close>.
\<close>

theorem getDisplayTime_format:
  "getDisplayTime H s this =
     (case dates s (date this) of
        Some t \<Rightarrow>
          (let h = HourFromTime (LocalTime H t);
               m = MinFromTime (LocalTime H t);
               sec = SecFromTime (LocalTime H t)
           in two_digits (if use12HourFormat this then (if h mod 12 = 0 then 12 else h mod 12)
                          else h)
              @ '':'' @ two_digits m
              @ (if showSeconds this then '':'' @ two_digits sec else [])
              @ (if use12HourFormat this then (if 12 \<le> h then '' PM'' else '' AM'') else []))
      | None \<Rightarrow>
          (if use12HourFormat this then ''12'' else ''NaN'') @ '':NaN''
          @ (if showSeconds this then '':NaN'' else [])
          @ (if use12HourFormat this then '' AM'' else []))"
proof (cases "dates s (date this)")
  case None
  then show ?thesis
    by (simp add: getDisplayTime_def Date_getHours_def Date_getMinutes_def Date_getSeconds_def
        local_field_def padZero_def ToNumber_def isNaN_def num_ge_def ToString_def
        Number_toString_def truthy_def is_safe_integer_def digits10.simps)
next
  case (Some t)
  define h where "h = HourFromTime (LocalTime H t)"
  define m where "m = MinFromTime (LocalTime H t)"
  define sec where "sec = SecFromTime (LocalTime H t)"
  have h: "0 \<le> h" "h < 24" and m: "0 \<le> m" "m < 60" and sec: "0 \<le> sec" "sec < 60"
    using HourFromTime_range MinFromTime_range SecFromTime_range by (simp_all add: h_def m_def sec_def)
  have h12: "0 \<le> (if h mod 12 = 0 then 12 else h mod 12)" "(if h mod 12 = 0 then 12 else h mod 12) < 100"
    by (simp_all add: pos_mod_bound [of 12 h, THEN less_trans])
  have *: "ToString H (padZero H (Num (Fin (of_int h)))) = two_digits h"
    "ToString H (padZero H (Num (Fin (of_int m)))) = two_digits m"
    "ToString H (padZero H (Num (Fin (of_int sec)))) = two_digits sec"
    "ToString H (padZero H (Num (Fin (of_int (if h mod 12 = 0 then 12 else h mod 12)))))
       = two_digits (if h mod 12 = 0 then 12 else h mod 12)"
    using h m sec h12 by (simp_all only: padZero_two_digits)
  have ge: "num_ge (Fin (of_int h)) (Fin 12) \<longleftrightarrow> 12 \<le> h"
    by (simp add: num_ge_def isNaN_def not_less)
  show ?thesis
    using Some * hour12 [OF h] ge
    by (simp add: getDisplayTime_def Date_getHours_def Date_getMinutes_def Date_getSeconds_def
        local_field_def Let_def flip: h_def m_def sec_def)
qed

text \<open>Witness for C8: midnight and noon in 12-hour mode, and an afternoon in 24-hour mode.\<close>

theorem getDisplayTime_format_witness:
  "getDisplayTime example_host (store_of [Some 1709226000000])
     ((instance_of 0)\<lparr>use12HourFormat := True\<rparr>) = ''12:00 AM'' \<and>
   getDisplayTime example_host (store_of [Some 1709269200000])
     ((instance_of 0)\<lparr>use12HourFormat := True, showSeconds := True\<rparr>) = ''12:00:00 PM'' \<and>
   getDisplayTime example_host (store_of [Some 1709274909000]) (instance_of 0) = ''13:35''"
  using
    getDisplayTime_format [of example_host "store_of [Some 1709226000000]"
      "(instance_of 0)\<lparr>use12HourFormat := True\<rparr>"]
    getDisplayTime_format [of example_host "store_of [Some 1709269200000]"
      "(instance_of 0)\<lparr>use12HourFormat := True, showSeconds := True\<rparr>"]
    getDisplayTime_format [of example_host "store_of [Some 1709274909000]" "instance_of 0"]
  by (simp add: eval_store example_host_def LocalTime_def HourFromTime_def MinFromTime_def
      SecFromTime_def msPerHour_def msPerMinute_def msPerSecond_def two_digits_def)

subsection \<open>getTimeRelativeToNow\<close>

lemma getDisplayDate_cong:
  "dates s1 (date this) = dates s (date this) \<Longrightarrow> getDisplayDate H s1 this = getDisplayDate H s this"
  by (simp add: getDisplayDate_def getBDYear_def getADYear_def getMonthName_def)

lemma getTimeRelativeToNow_delta:
  assumes "dates s (date this) = Some t" and "date this < next_ref s"
    and "\<bar>clock\<bar> \<le> 8640000000000000"
  shows "getTimeRelativeToNow H clock s this =
     Inr (let delta = (clock - t + 30000) div 60000;
              ago = timeAgo (getLanguageConstants H this)
          in if delta < 1 then justNow ago
             else if delta < 60 then timeAgo.minute ago (Fin (of_int delta))
             else if delta < 1440 then timeAgo.hour ago (Fin (of_int (delta div 60)))
             else if delta < 43200 then timeAgo.day ago (Fin (of_int (delta div 1440)))
             else getDisplayDate H s this)"
proof -
  define s1 where "s1 = s\<lparr>dates := (dates s)(next_ref s := Some clock), next_ref := Suc (next_ref s)\<rparr>"
  define now where "now = instance_of (next_ref s)"
  have new: "DateHelper_new H clock None no_config s = Inr (now, s1)"
    using assms(3)
    by (simp add: DateHelper_new_def initial_Date_def adjust_UTC_def no_config_def new_Date_def
        Date_of_number_def Date_now_def TimeClip_def js_truncate_def nullish_def now_def s1_def
        instance_of_def flip: of_int_abs)
  have d1: "dates s1 (date now) = Some clock" and d2: "dates s1 (date this) = Some t"
    using assms(1,2) by (simp_all add: s1_def now_def instance_of_def)
  have delta: "deltaMinutes s1 now this = Fin (of_int ((clock - t + 30000) div 60000))"
    using d1 d2 by (rule deltaMinutes_valid)
  have disp: "getDisplayDate H s1 this = getDisplayDate H s this"
    using d2 assms(1) by (simp add: getDisplayDate_cong)
  have fl: "\<lfloor>(of_int n :: rat) / 60\<rfloor> = n div 60" "\<lfloor>(of_int n :: rat) / 1440\<rfloor> = n div 1440" for n
    using floor_divide_of_int_eq [of n 60, where ?'a = rat]
      floor_divide_of_int_eq [of n 1440, where ?'a = rat] by simp_all
  show ?thesis
    by (simp add: getTimeRelativeToNow_def new delta disp fl Let_def)
qed

text \<open>With an invalid Date the difference is \<open>NaN\<close>, and every comparison fails.\<close>

lemma getTimeRelativeToNow_invalid:
  assumes "dates s (date this) = None" and "date this < next_ref s"
  shows "getTimeRelativeToNow H clock s this = Inr (getDisplayDate H s this)"
proof -
  obtain now s1 where new: "DateHelper_new H clock None no_config s = Inr (now, s1)"
    and s1: "dates s1 (date this) = dates s (date this)"
    using assms(2)
    by (simp add: DateHelper_new_def initial_Date_def adjust_UTC_def no_config_def new_Date_def)
  have "deltaMinutes s1 now this = NaN"
    using s1 assms(1)
    by (cases "Date_getTime (dates s1 (date now))")
      (simp_all add: deltaMinutes_def Date_getTime_simps num_sub_def)
  then show ?thesis
    using getDisplayDate_cong [OF s1, of H] by (simp add: getTimeRelativeToNow_def new)
qed

lemma en_ago_eval:
  "en_ago H u (Fin 59) = ''59 '' @ u @ ''s ago''"
  "en_ago H u (Fin 23) = ''23 '' @ u @ ''s ago''"
  "en_ago H u (Fin 1) = ''1 '' @ u @ '' ago''"
  by (simp_all add: en_ago_def eval_number)

text \<open>The string form of a count.\<close>

lemma ToString_count:
  assumes "0 \<le> n" and "n < 9007199254740992"
  shows "ToString H (Num (Fin (of_int n))) = digits10 (nat n)"
proof -
  have "is_safe_integer (of_int n)"
    using assms by (intro safe_of_int) simp
  then show ?thesis
    using assms(1) by (simp add: ToString_def Number_toString_def)
qed

lemma en_ago_count:
  assumes "0 \<le> n" and "n < 9007199254740992"
  shows "en_ago H u (Fin (of_int n)) =
           digits10 (nat n) @ '' '' @ u @ (if 1 < n then ''s'' else []) @ '' ago''"
proof -
  have "num_gt (Fin (of_int n)) (Fin 1) \<longleftrightarrow> 1 < n"
    by (simp add: num_gt_def)
  then show ?thesis
    by (simp add: en_ago_def ToString_count [OF assms])
qed

text \<open>
  C6. For an instance with a valid Date at instant \<open>t\<close>, with the clock reading \<open>clock\<close>
  (a valid time value, less than \<open>2^53\<close> ms from \<open>t\<close>), let \<open>delta\<close> be
  \<open>(clock - t) / 60000\<close> rounded as \<open>deltaMinutes\<close> rounds. \<open>getTimeRelativeToNow\<close>
  returns, in the language of the instance, the phrase for just now when \<open>delta < 1\<close>,
  the minutes phrase for \<open>delta\<close> when \<open>delta < 60\<close>, the hours phrase for
  \<open>floor(delta / 60)\<close> when \<open>delta < 1440\<close>, the days phrase for \<open>floor(delta / 1440)\<close>
  when \<open>delta < 43200\<close>, and the display date otherwise. An English phrase is the count,
  the unit with \<open>s\<close> appended when the count is above one, and \<open>ago\<close>; a Thai phrase is
  the count and the Thai words of constants.ts, the same for every count. In English, 59
  gives \<open>59 minutes ago\<close>, 60 gives \<open>1 hour ago\<close>, 1439 gives \<open>23 hours ago\<close> and 1440
  gives \<open>1 day ago\<close>.
\<close>

theorem getTimeRelativeToNow_thresholds:
  assumes "dates s (date this) = Some t" and "date this < next_ref s"
    and "\<bar>clock\<bar> \<le> 8640000000000000" and "\<bar>clock - t\<bar> < 9007199254740992"
  shows "getTimeRelativeToNow H clock s this =
     Inr (let delta = (clock - t + 30000) div 60000
          in if delta < 1 then
               (case defaultLang this of EN \<Rightarrow> ''Just now'' | TH \<Rightarrow> th_justNow)
             else if delta < 60 then
               (case defaultLang this of
                  EN \<Rightarrow> digits10 (nat delta) @ '' minute'' @ (if 1 < delta then ''s'' else [])
                         @ '' ago''
                | TH \<Rightarrow> digits10 (nat delta) @ th_minute_suffix)
             else if delta < 1440 then
               (case defaultLang this of
                  EN \<Rightarrow> digits10 (nat (delta div 60)) @ '' hour''
                         @ (if 1 < delta div 60 then ''s'' else []) @ '' ago''
                | TH \<Rightarrow> digits10 (nat (delta div 60)) @ th_hour_suffix)
             else if delta < 43200 then
               (case defaultLang this of
                  EN \<Rightarrow> digits10 (nat (delta div 1440)) @ '' day''
                         @ (if 1 < delta div 1440 then ''s'' else []) @ '' ago''
                | TH \<Rightarrow> digits10 (nat (delta div 1440)) @ th_day_suffix)
             else getDisplayDate H s this) \<and>
    (defaultLang this = EN \<longrightarrow>
       ((clock - t + 30000) div 60000 = 59 \<longrightarrow>
          getTimeRelativeToNow H clock s this = Inr ''59 minutes ago'') \<and>
       ((clock - t + 30000) div 60000 = 60 \<longrightarrow>
          getTimeRelativeToNow H clock s this = Inr ''1 hour ago'') \<and>
       ((clock - t + 30000) div 60000 = 1439 \<longrightarrow>
          getTimeRelativeToNow H clock s this = Inr ''23 hours ago'') \<and>
       ((clock - t + 30000) div 60000 = 1440 \<longrightarrow>
          getTimeRelativeToNow H clock s this = Inr ''1 day ago'')) \<and>
    (defaultLang this = TH \<longrightarrow>
       ((clock - t + 30000) div 60000 = 59 \<longrightarrow>
          getTimeRelativeToNow H clock s this = Inr (''59'' @ th_minute_suffix)) \<and>
       ((clock - t + 30000) div 60000 = 60 \<longrightarrow>
          getTimeRelativeToNow H clock s this = Inr (''1'' @ th_hour_suffix)) \<and>
       ((clock - t + 30000) div 60000 = 1439 \<longrightarrow>
          getTimeRelativeToNow H clock s this = Inr (''23'' @ th_hour_suffix)) \<and>
       ((clock - t + 30000) div 60000 = 1440 \<longrightarrow>
          getTimeRelativeToNow H clock s this = Inr (''1'' @ th_day_suffix)))"
proof -
  define delta where "delta = (clock - t + 30000) div 60000"
  have small: "delta < 9007199254740992" "delta div 60 < 9007199254740992"
    "delta div 1440 < 9007199254740992"
    using assms(4) unfolding delta_def by linarith+
  have pos: "0 \<le> delta div 60" "0 \<le> delta div 1440" if "1 \<le> delta"
    using that by simp_all
  have table: "getTimeRelativeToNow H clock s this =
     Inr (if delta < 1 then
            (case defaultLang this of EN \<Rightarrow> ''Just now'' | TH \<Rightarrow> th_justNow)
          else if delta < 60 then
            (case defaultLang this of
               EN \<Rightarrow> digits10 (nat delta) @ '' minute'' @ (if 1 < delta then ''s'' else [])
                      @ '' ago''
             | TH \<Rightarrow> digits10 (nat delta) @ th_minute_suffix)
          else if delta < 1440 then
            (case defaultLang this of
               EN \<Rightarrow> digits10 (nat (delta div 60)) @ '' hour''
                      @ (if 1 < delta div 60 then ''s'' else []) @ '' ago''
             | TH \<Rightarrow> digits10 (nat (delta div 60)) @ th_hour_suffix)
          else if delta < 43200 then
            (case defaultLang this of
               EN \<Rightarrow> digits10 (nat (delta div 1440)) @ '' day''
                      @ (if 1 < delta div 1440 then ''s'' else []) @ '' ago''
             | TH \<Rightarrow> digits10 (nat (delta div 1440)) @ th_day_suffix)
          else getDisplayDate H s this)"
    using getTimeRelativeToNow_delta [OF assms(1-3), of H] small pos
    by (cases "defaultLang this")
      (simp_all add: delta_def [symmetric] Let_def getLanguageConstants_def en_def th_def
        en_ago_count ToString_count)
  have digits: "digits10 59 = ''59''" "digits10 23 = ''23''" "digits10 (Suc 0) = ''1''"
    by (simp_all add: digits10.simps)
  show ?thesis
    unfolding delta_def [symmetric] Let_def
    by (intro conjI impI) (simp_all add: table digits)
qed

text \<open>
  Witness for C6: the four boundaries in English and the 59 minutes in Thai, for a Date
  at 2024-03-01T00:00 in the example zone, and the phrase for just now in both languages.
\<close>

theorem getTimeRelativeToNow_thresholds_witness:
  "getTimeRelativeToNow example_host 1709229540000 (store_of [Some 1709226000000]) (instance_of 0)
     = Inr ''59 minutes ago'' \<and>
   getTimeRelativeToNow example_host 1709229600000 (store_of [Some 1709226000000]) (instance_of 0)
     = Inr ''1 hour ago'' \<and>
   getTimeRelativeToNow example_host 1709312340000 (store_of [Some 1709226000000]) (instance_of 0)
     = Inr ''23 hours ago'' \<and>
   getTimeRelativeToNow example_host 1709312400000 (store_of [Some 1709226000000]) (instance_of 0)
     = Inr ''1 day ago'' \<and>
   getTimeRelativeToNow example_host 1709226000000 (store_of [Some 1709226000000]) (instance_of 0)
     = Inr ''Just now'' \<and>
   getTimeRelativeToNow example_host 1709229540000 (store_of [Some 1709226000000])
     ((instance_of 0)\<lparr>defaultLang := TH\<rparr>)
     = Inr (''59'' @
            [CHR 0x20, CHR 0xE0, CHR 0xB8, CHR 0x99, CHR 0xE0, CHR 0xB8, CHR 0xB2, CHR 0xE0,
             CHR 0xB8, CHR 0x97, CHR 0xE0, CHR 0xB8, CHR 0xB5, CHR 0xE0, CHR 0xB8, CHR 0x97,
             CHR 0xE0, CHR 0xB8, CHR 0xB5, CHR 0xE0, CHR 0xB9, CHR 0x88, CHR 0xE0, CHR 0xB9,
             CHR 0x81, CHR 0xE0, CHR 0xB8, CHR 0xA5, CHR 0xE0, CHR 0xB9, CHR 0x89, CHR 0xE0,
             CHR 0xB8, CHR 0xA7]) \<and>
   getTimeRelativeToNow example_host 1709226000000 (store_of [Some 1709226000000])
     ((instance_of 0)\<lparr>defaultLang := TH\<rparr>)
     = Inr [CHR 0xE0, CHR 0xB9, CHR 0x80, CHR 0xE0, CHR 0xB8, CHR 0xA1, CHR 0xE0, CHR 0xB8,
          CHR 0xB7, CHR 0xE0, CHR 0xB9, CHR 0x88, CHR 0xE0, CHR 0xB8, CHR 0xAD, CHR 0xE0,
          CHR 0xB8, CHR 0xAA, CHR 0xE0, CHR 0xB8, CHR 0xB1, CHR 0xE0, CHR 0xB8, CHR 0x81,
          CHR 0xE0, CHR 0xB8, CHR 0x84, CHR 0xE0, CHR 0xB8, CHR 0xA3, CHR 0xE0, CHR 0xB8,
          CHR 0xB9, CHR 0xE0, CHR 0xB9, CHR 0x88]"
  using
    getTimeRelativeToNow_thresholds [of "store_of [Some 1709226000000]" "instance_of 0"
      1709226000000 1709229540000 example_host, THEN conjunct1]
    getTimeRelativeToNow_thresholds [of "store_of [Some 1709226000000]" "instance_of 0"
      1709226000000 1709229600000 example_host, THEN conjunct1]
    getTimeRelativeToNow_thresholds [of "store_of [Some 1709226000000]" "instance_of 0"
      1709226000000 1709312340000 example_host, THEN conjunct1]
    getTimeRelativeToNow_thresholds [of "store_of [Some 1709226000000]" "instance_of 0"
      1709226000000 1709312400000 example_host, THEN conjunct1]
    getTimeRelativeToNow_thresholds [of "store_of [Some 1709226000000]" "instance_of 0"
      1709226000000 1709226000000 example_host, THEN conjunct1]
    getTimeRelativeToNow_thresholds [of "store_of [Some 1709226000000]"
      "(instance_of 0)\<lparr>defaultLang := TH\<rparr>" 1709226000000 1709229540000 example_host,
      THEN conjunct1]
    getTimeRelativeToNow_thresholds [of "store_of [Some 1709226000000]"
      "(instance_of 0)\<lparr>defaultLang := TH\<rparr>" 1709226000000 1709226000000 example_host,
      THEN conjunct1]
  by (simp add: eval_store digits10.simps th_minute_suffix_def th_justNow_def)

subsection \<open>getDaysCountInMonth\<close>

lemma num_rem_zero_iff:
  assumes "0 < d"
  shows "num_eq (num_rem (Fin (of_int y)) (Fin (of_int d))) (Fin 0) \<longleftrightarrow> d dvd y"
proof
  assume "num_eq (num_rem (Fin (of_int y)) (Fin (of_int d))) (Fin 0)"
  then have "(of_int y :: rat) - of_int d * of_int (js_truncate (of_int y / of_int d)) = 0"
    using assms by (simp add: num_eq_def isNaN_def)
  then have "(of_int (y - d * js_truncate (of_int y / of_int d)) :: rat) = of_int 0"
    by simp
  then have "y - d * js_truncate (of_int y / of_int d) = 0"
    by (simp only: of_int_eq_iff)
  then show "d dvd y"
    by (metis dvd_triv_left eq_iff_diff_eq_0)
next
  assume "d dvd y"
  then obtain c where c: "y = d * c" ..
  have "(of_int y :: rat) / of_int d = of_int c" using assms c by simp
  then have "js_truncate ((of_int y :: rat) / of_int d) = c"
    by (simp add: js_truncate_def)
  then show "num_eq (num_rem (Fin (of_int y)) (Fin (of_int d))) (Fin 0)"
    using assms c by (simp add: num_eq_def isNaN_def)
qed

lemma leap_rule:
  "(num_eq (num_rem (Fin (of_int y)) (Fin 4)) (Fin 0) \<and>
      \<not> num_eq (num_rem (Fin (of_int y)) (Fin 100)) (Fin 0)
    \<or> num_eq (num_rem (Fin (of_int y)) (Fin 400)) (Fin 0))
   \<longleftrightarrow> 4 dvd y \<and> (\<not> 100 dvd y \<or> 400 dvd y)"
proof -
  have "(400::int) = 4 * 100" by simp
  then have "400 dvd y \<Longrightarrow> 4 dvd y"
    by (metis dvd_mult_left)
  then show ?thesis
    using num_rem_zero_iff [of 4 y] num_rem_zero_iff [of 100 y] num_rem_zero_iff [of 400 y]
    by auto
qed

text \<open>
  C2. For an instance with a valid Date in local year \<open>y\<close> and local month \<open>m\<close> (1 to 12),
  \<open>getDaysCountInMonth\<close> is 29 for February when \<open>y\<close> is divisible by 4 and not by 100
  unless also by 400, 28 for February otherwise, 30 for the months 4, 6, 9 and 11, and 31
  for every other month. An invalid Date has no month, and the result is 31.
\<close>

theorem getDaysCountInMonth_gregorian:
  "getDaysCountInMonth H s this =
     (case dates s (date this) of
        Some t \<Rightarrow>
          (let y = YearFromTime (LocalTime H t);
               m = MonthFromTime (LocalTime H t) + 1
           in Fin (if m = 2 then (if 4 dvd y \<and> (\<not> 100 dvd y \<or> 400 dvd y) then 29 else 28)
                   else if m \<in> {4, 6, 9, 11} then 30
                   else 31))
      | None \<Rightarrow> Fin 31)"
proof (cases "dates s (date this)")
  case None
  then show ?thesis
    by (simp add: getDaysCountInMonth_def toDateTuple_def Date_getFullYear_def Date_getMonth_def
        Date_getDate_def local_field_def num_eq_def isNaN_def)
next
  case (Some t)
  have m: "num_eq (Fin (of_int k + 1)) (Fin 2) \<longleftrightarrow> k + 1 = 2" for k :: int
    by (auto simp: num_eq_def isNaN_def)
  have m30: "(of_int k + 1 :: rat) = 4 \<or> (of_int k + 1 :: rat) = 6 \<or> (of_int k + 1 :: rat) = 9
      \<or> (of_int k + 1 :: rat) = 11 \<longleftrightarrow> k + 1 \<in> {4, 6, 9, 11}" for k :: int
  proof -
    have "(of_int k + 1 :: rat) = of_int (k + 1)" by simp
    then show ?thesis
      by (simp only: of_int_eq_numeral_iff insert_iff empty_iff) auto
  qed
  show ?thesis
    using Some
    by (auto simp add: getDaysCountInMonth_def toDateTuple_def Date_getFullYear_def Date_getMonth_def
        Date_getDate_def local_field_def Let_def leap_rule m m30 simp del: num_rem.simps)
qed

lemmas eval_date =
  example_host_def LocalTime_def YearFromTime_def MonthFromTime_def DateFromTime_def Day_def
  DayWithinYear_def InLeapYear_def DaysInYear_def DayFromYear_def msPerDay_def

text \<open>
  Witness for C2: mid-February of 2000, 1900, 2024 and 2023, the first of March 2024, and
  an invalid Date.
\<close>

theorem getDaysCountInMonth_gregorian_witness:
  "getDaysCountInMonth example_host (store_of [Some 950616000000]) (instance_of 0) = Fin 29 \<and>
   getDaysCountInMonth example_host (store_of [Some (- 2205057600000)]) (instance_of 0) = Fin 28 \<and>
   getDaysCountInMonth example_host (store_of [Some 1707998400000]) (instance_of 0) = Fin 29 \<and>
   getDaysCountInMonth example_host (store_of [Some 1676462400000]) (instance_of 0) = Fin 28 \<and>
   getDaysCountInMonth example_host (store_of [Some 1709226000000]) (instance_of 0) = Fin 31 \<and>
   getDaysCountInMonth example_host (store_of [None]) (instance_of 0) = Fin 31"
  using
    getDaysCountInMonth_gregorian [of example_host "store_of [Some 950616000000]" "instance_of 0"]
    getDaysCountInMonth_gregorian [of example_host "store_of [Some (- 2205057600000)]" "instance_of 0"]
    getDaysCountInMonth_gregorian [of example_host "store_of [Some 1707998400000]" "instance_of 0"]
    getDaysCountInMonth_gregorian [of example_host "store_of [Some 1676462400000]" "instance_of 0"]
    getDaysCountInMonth_gregorian [of example_host "store_of [Some 1709226000000]" "instance_of 0"]
    getDaysCountInMonth_gregorian [of example_host "store_of [None]" "instance_of 0"]
  by (simp add: eval_store eval_date)

subsection \<open>The calendar\<close>

lemma div_add1:
  fixes a k :: int
  assumes "0 < k"
  shows "(a + 1) div k = a div k + (if (a + 1) mod k = 0 then 1 else 0)"
proof -
  define q where "q = a div k"
  define r where "r = a mod k"
  have a: "a = k * q + r" and r: "0 \<le> r" "r < k"
    using assms by (simp_all add: q_def r_def)
  show ?thesis
  proof (cases "r + 1 = k")
    case True
    then have "a + 1 = k * (q + 1) + 0" using a by (simp add: algebra_simps)
    then have "(a + 1) div k = q + 1" "(a + 1) mod k = 0"
      using assms by (metis int_div_pos_eq order_refl, metis int_mod_pos_eq order_refl)
    then show ?thesis by (simp add: q_def)
  next
    case False
    then have "a + 1 = k * q + (r + 1)" "0 \<le> r + 1" "r + 1 < k" using a r by simp_all
    then have "(a + 1) div k = q" "(a + 1) mod k = r + 1"
      by (metis int_div_pos_eq, metis int_mod_pos_eq)
    then show ?thesis using r by (simp add: q_def)
  qed
qed

lemma mod_shift:
  fixes y :: int
  shows "(y - k * c) mod k = y mod k"
proof -
  have "y - k * c = y + k * (- c)" by simp
  then show ?thesis by (simp only: mod_mult_self2)
qed

lemma DayFromYear_Suc: "DayFromYear (y + 1) = DayFromYear y + DaysInYear y"
proof -
  have 4: "(y - 1968) div 4 = (y - 1969) div 4 + (if y mod 4 = 0 then 1 else 0)"
    using div_add1 [of 4 "y - 1969"] mod_shift [of y 4 492] by simp
  have 100: "(y - 1900) div 100 = (y - 1901) div 100 + (if y mod 100 = 0 then 1 else 0)"
    using div_add1 [of 100 "y - 1901"] mod_shift [of y 100 19] by simp
  have 400: "(y - 1600) div 400 = (y - 1601) div 400 + (if y mod 400 = 0 then 1 else 0)"
    using div_add1 [of 400 "y - 1601"] mod_shift [of y 400 4] by simp
  have m1: "y mod 100 = 0 \<Longrightarrow> y mod 4 = 0"
    using mod_mod_cancel [of 4 100 y] by simp
  have m2: "y mod 400 = 0 \<Longrightarrow> y mod 100 = 0"
    using mod_mod_cancel [of 100 400 y] by simp
  have "DayFromYear (y + 1) =
      365 * (y - 1969) + (y - 1968) div 4 - (y - 1900) div 100 + (y - 1600) div 400"
    by (simp add: DayFromYear_def)
  also have "\<dots> = DayFromYear y + 365 + (if y mod 4 = 0 then 1 else 0)
      - (if y mod 100 = 0 then 1 else 0) + (if y mod 400 = 0 then 1 else 0)"
    unfolding 4 100 400 DayFromYear_def by simp
  also have "\<dots> = DayFromYear y + DaysInYear y"
    using m1 m2 by (simp add: DaysInYear_def)
  finally show ?thesis .
qed

lemma DaysInYear_pos: "365 \<le> DaysInYear y \<and> DaysInYear y \<le> 366"
  by (simp add: DaysInYear_def)

lemma DayFromYear_mono: "y \<le> y' \<Longrightarrow> DayFromYear y \<le> DayFromYear y'"
proof (induct y' rule: int_ge_induct)
  case base
  show ?case by simp
next
  case (step i)
  then show ?case
    using DayFromYear_Suc [of i] DaysInYear_pos [of i] by simp
qed

lemma DayFromYear_strict: "y < y' \<Longrightarrow> DayFromYear y < DayFromYear y'"
  using DayFromYear_mono [of "y + 1" y'] DayFromYear_Suc [of y] DaysInYear_pos [of y] by simp

text \<open>Four hundred times the day number of a year, against the mean year.\<close>

lemma DayFromYear_estimate:
  "146097 * (y - 1970) - 506 \<le> 400 * DayFromYear y \<and>
   400 * DayFromYear y \<le> 146097 * (y - 1970) + 589"
proof -
  define a where "a = (y - 1969) div 4"
  define b where "b = (y - 1901) div 100"
  define c where "c = (y - 1601) div 400"
  have a: "4 * a \<le> y - 1969" "y - 1969 \<le> 4 * a + 3"
    using div_mult_mod_eq [of "y - 1969" 4] pos_mod_sign [of 4 "y - 1969"]
      pos_mod_bound [of 4 "y - 1969"] unfolding a_def by linarith+
  have b: "100 * b \<le> y - 1901" "y - 1901 \<le> 100 * b + 99"
    using div_mult_mod_eq [of "y - 1901" 100] pos_mod_sign [of 100 "y - 1901"]
      pos_mod_bound [of 100 "y - 1901"] unfolding b_def by linarith+
  have c: "400 * c \<le> y - 1601" "y - 1601 \<le> 400 * c + 399"
    using div_mult_mod_eq [of "y - 1601" 400] pos_mod_sign [of 400 "y - 1601"]
      pos_mod_bound [of 400 "y - 1601"] unfolding c_def by linarith+
  have "DayFromYear y = 365 * (y - 1970) + a - b + c"
    by (simp add: DayFromYear_def a_def b_def c_def)
  with a b c show ?thesis by simp
qed

lemma YearFromTime_bounds:
  "DayFromYear (YearFromTime t) \<le> Day t \<and> Day t < DayFromYear (YearFromTime t + 1)"
proof -
  define d where "d = Day t"
  define n where "n = (400 * d) div 146097"
  have n: "146097 * n \<le> 400 * d" "400 * d \<le> 146097 * n + 146096"
    using div_mult_mod_eq [of "400 * d" 146097] pos_mod_sign [of 146097 "400 * d"]
      pos_mod_bound [of 146097 "400 * d"] unfolding n_def by linarith+
  have Y: "YearFromTime t =
      (if DayFromYear (1970 + n + 1) \<le> d then 1970 + n + 1
       else if d < DayFromYear (1970 + n) then 1970 + n - 1 else 1970 + n)"
    by (simp add: YearFromTime_def Let_def d_def n_def)
  have up: "d < DayFromYear (1970 + n + 1 + 1)"
    using DayFromYear_estimate [of "1970 + n + 1 + 1", THEN conjunct1] n by simp
  have lo: "DayFromYear (1970 + n - 1) \<le> d"
    using DayFromYear_estimate [of "1970 + n - 1", THEN conjunct2] n by simp
  show ?thesis
    unfolding Y d_def [symmetric]
    using up lo by auto
qed

lemma YearFromTime_unique:
  assumes "DayFromYear y \<le> Day t" and "Day t < DayFromYear (y + 1)"
  shows "YearFromTime t = y"
proof (rule ccontr)
  assume ne: "YearFromTime t \<noteq> y"
  define z where "z = YearFromTime t"
  have z: "DayFromYear z \<le> Day t" "Day t < DayFromYear (z + 1)"
    using YearFromTime_bounds [of t] by (simp_all add: z_def)
  show False
  proof (cases "z < y")
    case True
    then have "DayFromYear (z + 1) \<le> DayFromYear y" by (intro DayFromYear_mono) simp
    with z assms show False by linarith
  next
    case False
    with ne have "y + 1 \<le> z" by (simp add: z_def)
    then have "DayFromYear (y + 1) \<le> DayFromYear z" by (rule DayFromYear_mono)
    with z assms show False by linarith
  qed
qed

text \<open>The definition computes the year that ECMA-262 specifies.\<close>

lemma YearFromTime_largest:
  "TimeFromYear (YearFromTime t) \<le> t \<and> (\<forall>y. TimeFromYear y \<le> t \<longrightarrow> y \<le> YearFromTime t)"
proof -
  define q where "q = t div 86400000"
  have q: "86400000 * q \<le> t" "t \<le> 86400000 * q + 86399999"
    using div_mult_mod_eq [of t 86400000] pos_mod_sign [of 86400000 t]
      pos_mod_bound [of 86400000 t] unfolding q_def by linarith+
  have le_iff: "TimeFromYear y \<le> t \<longleftrightarrow> DayFromYear y \<le> Day t" for y
    unfolding TimeFromYear_def Day_def msPerDay_def q_def [symmetric] using q by linarith
  have "y \<le> YearFromTime t" if "DayFromYear y \<le> Day t" for y
  proof (rule ccontr)
    assume "\<not> y \<le> YearFromTime t"
    then have "DayFromYear (YearFromTime t + 1) \<le> DayFromYear y"
      by (intro DayFromYear_mono) simp
    with that YearFromTime_bounds [of t] show False by linarith
  qed
  then show ?thesis
    using YearFromTime_bounds [of t] by (simp add: le_iff)
qed

subsection \<open>fromDateTupleAndTime and toDateTuple\<close>

lemma month_cases:
  fixes mn :: int
  assumes "0 \<le> mn" and "mn \<le> 11"
  shows "mn = 0 \<or> mn = 1 \<or> mn = 2 \<or> mn = 3 \<or> mn = 4 \<or> mn = 5 \<or> mn = 6 \<or> mn = 7 \<or> mn = 8
         \<or> mn = 9 \<or> mn = 10 \<or> mn = 11"
  using assms by arith

lemma DaysInYear_cases: "DaysInYear y = 365 \<or> DaysInYear y = 366"
  by (simp add: DaysInYear_def)

text \<open>A day of a month lies within its year.\<close>

lemma day_within_year:
  assumes "0 \<le> mn" and "mn \<le> 11" and "1 \<le> dt" and "dt \<le> int (DaysInMonth y (nat (mn + 1)))"
  shows "DayFromYear y \<le> month_start y mn + dt - 1 \<and>
         month_start y mn + dt - 1 < DayFromYear (y + 1)"
  using month_cases [OF assms(1,2)] DaysInYear_cases [of y] assms(3,4)
  unfolding DayFromYear_Suc
  by (auto simp: month_start_def DaysInMonth_def)

lemma fields_of_day:
  assumes "0 \<le> mn" and "mn \<le> 11" and "1 \<le> dt" and "dt \<le> int (DaysInMonth y (nat (mn + 1)))"
    and D: "Day t = month_start y mn + dt - 1"
  shows "YearFromTime t = y \<and> MonthFromTime t = mn \<and> DateFromTime t = dt"
proof -
  note cases = month_cases [OF assms(1,2)] and leap = DaysInYear_cases [of y]
  have Y: "YearFromTime t = y"
    using day_within_year [OF assms(1-4)] by (intro YearFromTime_unique) (simp_all add: D)
  have W: "DayWithinYear t = month_start y mn + dt - 1 - DayFromYear y"
    by (simp add: DayWithinYear_def Y D)
  have L: "InLeapYear t = (if DaysInYear y = 365 then 0 else 1)"
    by (simp add: InLeapYear_def Y)
  have M: "MonthFromTime t = mn"
    using cases leap assms(3,4)
    by (elim disjE) (simp_all add: MonthFromTime_def W L month_start_def DaysInMonth_def Let_def)
  have "DateFromTime t = dt"
    using cases leap
    by (elim disjE) (simp_all add: DateFromTime_def M W L month_start_def Let_def)
  with Y M show ?thesis by simp
qed

text \<open>The fields of a time value determine its day.\<close>

lemma day_of_fields:
  "Day t = month_start (YearFromTime t) (MonthFromTime t) + DateFromTime t - 1"
proof -
  have "MonthFromTime t = 0 \<or> MonthFromTime t = 1 \<or> MonthFromTime t = 2 \<or> MonthFromTime t = 3
      \<or> MonthFromTime t = 4 \<or> MonthFromTime t = 5 \<or> MonthFromTime t = 6 \<or> MonthFromTime t = 7
      \<or> MonthFromTime t = 8 \<or> MonthFromTime t = 9 \<or> MonthFromTime t = 10 \<or> MonthFromTime t = 11"
    by (simp add: MonthFromTime_def Let_def)
  then show ?thesis
    using DaysInYear_cases [of "YearFromTime t"]
    by (elim disjE)
      (simp_all add: DateFromTime_def month_start_def DayWithinYear_def InLeapYear_def Let_def)
qed

lemma js_truncate_of_int: "js_truncate (of_int k) = k"
  by (simp add: js_truncate_def)

lemma finite_int_of_int: "finite_int (Fin (of_int k)) = Some k"
  by (simp add: finite_int_def js_truncate_of_int)

lemma TimeClip_of_int:
  "\<bar>u\<bar> \<le> 8640000000000000 \<Longrightarrow> TimeClip (Fin (of_int u)) = Some u"
  by (simp add: TimeClip_def js_truncate_of_int flip: of_int_abs)

lemma TimeClip_beyond:
  "\<not> \<bar>u\<bar> \<le> 8640000000000000 \<Longrightarrow> TimeClip (Fin (of_int u)) = None"
  by (simp add: TimeClip_def flip: of_int_abs)

lemma Day_of_days: "Day (msPerDay * D) = D"
  by (simp add: Day_def msPerDay_def)

text \<open>
  A Date built from the fields of a day holds the instant that the host takes for that
  local midnight, if it is a time value.
\<close>

lemma Date_of_fields_midnight:
  assumes "yr < 0 \<or> 99 < yr" and "1 \<le> m" and "m \<le> 12"
  shows "Date_of_fields H (Fin (of_int yr)) (num_sub (Fin (of_int m)) (Fin 1)) (Fin (of_int d))
           (Fin 0) (Fin 0)
         = TimeClip (Fin (of_int (UTC H (msPerDay * (month_start yr (m - 1) + d - 1)))))"
proof -
  have full: "MakeFullYear (Fin (of_int yr)) = Fin (of_int yr)"
    using assms(1) by (auto simp: MakeFullYear_def js_truncate_of_int)
  have month: "num_sub (Fin (of_int m)) (Fin 1) = Fin (of_int m - 1)"
    by (simp add: num_sub_def)
  have m1: "(of_int m - 1 :: rat) = of_int (m - 1)"
    by simp
  have md: "(m - 1) div 12 = 0" "(m - 1) mod 12 = m - 1"
    using assms(2,3) by simp_all
  have day: "MakeDay (Fin (of_int yr)) (Fin (of_int m - 1)) (Fin (of_int d))
      = Some (month_start yr (m - 1) + d - 1)"
    unfolding m1 MakeDay_def finite_int_of_int by (simp add: md)
  have time: "MakeTime (Fin 0) (Fin 0) (Fin 0) (Fin 0) = Some 0"
    by (simp add: MakeTime_def finite_int_def js_truncate_def)
  show ?thesis
    by (simp add: Date_of_fields_def full month day time MakeDate_def clip_local_def mult.commute)
qed

text \<open>What the round trip returns, by whether the instant is a time value.\<close>

lemma roundtrip_cases:
  assumes "yr < 0 \<or> 99 < yr" and "1 \<le> m" and "m \<le> 12"
    and u: "u = UTC H (msPerDay * (month_start yr (m - 1) + d - 1))"
  shows "\<bar>u\<bar> \<le> 8640000000000000 \<Longrightarrow>
           new_then (toDateTuple H)
             (fromDateTupleAndTime H clock (Fin (of_int yr), Fin (of_int m), Fin (of_int d)) None s)
           = Inr (Fin (of_int (YearFromTime (LocalTime H u))),
                  Fin (of_int (MonthFromTime (LocalTime H u) + 1)),
                  Fin (of_int (DateFromTime (LocalTime H u))))"
    and "\<not> \<bar>u\<bar> \<le> 8640000000000000 \<Longrightarrow> parse_fallback H ''NaN'' = None \<Longrightarrow>
           new_then (toDateTuple H)
             (fromDateTupleAndTime H clock (Fin (of_int yr), Fin (of_int m), Fin (of_int d)) None s)
           = Inl (Error ''Invalid date string or number provided.'')"
proof -
  note fields = Date_of_fields_midnight [OF assms(1-3), of H d, folded u]
  show "new_then (toDateTuple H)
      (fromDateTupleAndTime H clock (Fin (of_int yr), Fin (of_int m), Fin (of_int d)) None s)
    = Inr (Fin (of_int (YearFromTime (LocalTime H u))),
           Fin (of_int (MonthFromTime (LocalTime H u) + 1)),
           Fin (of_int (DateFromTime (LocalTime H u))))"
    if "\<bar>u\<bar> \<le> 8640000000000000"
    using TimeClip_of_int [OF that]
    by (simp add: fromDateTupleAndTime_def new_Date_def fields nullish_def Date_getTime_simps
        DateHelper_new_def initial_Date_def adjust_UTC_def no_config_def ToNumber_def isNaN_def
        Date_of_number_def new_then_def toDateTuple_def Date_getFullYear_def
        Date_getMonth_def Date_getDate_def local_field_def)
  have nan: "Date_parse H ''NaN'' = NaN" if "parse_fallback H ''NaN'' = None"
    using that
    by (simp add: Date_parse_def parse_time_value_def iso_parse_def iso_year_part_def
        digits_n_def is_digit_def Date_getTime_def)
  show "new_then (toDateTuple H)
      (fromDateTupleAndTime H clock (Fin (of_int yr), Fin (of_int m), Fin (of_int d)) None s)
    = Inl (Error ''Invalid date string or number provided.'')"
    if "\<not> \<bar>u\<bar> \<le> 8640000000000000" and "parse_fallback H ''NaN'' = None"
    using TimeClip_beyond [OF that(1)] nan [OF that(2)]
    by (simp add: fromDateTupleAndTime_def new_Date_def fields nullish_def Date_getTime_simps
        DateHelper_new_def initial_Date_def no_config_def ToNumber_def isNaN_def
        ToString_def Number_toString_def new_then_def)
qed

text \<open>
  C4, as amended. Let \<open>(y, m, d)\<close> be a date of the Gregorian calendar, \<open>m\<close> from 1 to 12
  and \<open>d\<close> from 1 to the number of days of that month, in a year other than 0 to 99. If
  the host's zone has that local day, \<open>fromDateTupleAndTime([y, m, d])\<close> returns an
  instance whose \<open>toDateTuple()\<close> is \<open>[y, m, d]\<close>. The condition on the host cannot be
  dropped: on a host whose \<open>Date.parse\<close> does not accept the string \<open>NaN\<close>, the tuple
  comes back only if the zone has the day.
\<close>

theorem fromDateTupleAndTime_roundtrip:
  assumes "yr < 0 \<or> 99 < yr"
    and "1 \<le> m" and "m \<le> 12" and "1 \<le> d" and "d \<le> int (DaysInMonth yr (nat m))"
  shows
    "(local_day_exists H (month_start yr (m - 1) + d - 1) \<longrightarrow>
        new_then (toDateTuple H)
          (fromDateTupleAndTime H clock (Fin (of_int yr), Fin (of_int m), Fin (of_int d)) None s)
        = Inr (Fin (of_int yr), Fin (of_int m), Fin (of_int d))) \<and>
     (parse_fallback H ''NaN'' = None \<longrightarrow>
        new_then (toDateTuple H)
          (fromDateTupleAndTime H clock (Fin (of_int yr), Fin (of_int m), Fin (of_int d)) None s)
        = Inr (Fin (of_int yr), Fin (of_int m), Fin (of_int d)) \<longrightarrow>
        local_day_exists H (month_start yr (m - 1) + d - 1))"
proof (intro conjI impI)
  define D where "D = month_start yr (m - 1) + d - 1"
  define u where "u = UTC H (msPerDay * D)"
  have u: "u = UTC H (msPerDay * (month_start yr (m - 1) + d - 1))"
    by (simp add: u_def D_def)
  note cases = roundtrip_cases [OF assms(1-3) u, of clock s]
  {
    assume "local_day_exists H (month_start yr (m - 1) + d - 1)"
    then have range: "\<bar>u\<bar> \<le> 8640000000000000" and day: "Day (LocalTime H u) = D"
      by (simp_all add: local_day_exists_def D_def u_def)
    have "YearFromTime (LocalTime H u) = yr \<and> MonthFromTime (LocalTime H u) = m - 1
        \<and> DateFromTime (LocalTime H u) = d"
      using assms(2-5) by (intro fields_of_day) (simp_all add: day D_def)
    then show "new_then (toDateTuple H)
        (fromDateTupleAndTime H clock (Fin (of_int yr), Fin (of_int m), Fin (of_int d)) None s)
      = Inr (Fin (of_int yr), Fin (of_int m), Fin (of_int d))"
      by (simp add: cases(1) [OF range])
  }
  {
    assume fallback: "parse_fallback H ''NaN'' = None"
      and same: "new_then (toDateTuple H)
        (fromDateTupleAndTime H clock (Fin (of_int yr), Fin (of_int m), Fin (of_int d)) None s)
      = Inr (Fin (of_int yr), Fin (of_int m), Fin (of_int d))"
    have range: "\<bar>u\<bar> \<le> 8640000000000000"
    proof (rule ccontr)
      assume "\<not> \<bar>u\<bar> \<le> 8640000000000000"
      from cases(2) [OF this fallback] same show False by simp
    qed
    from cases(1) [OF range] same
    have "YearFromTime (LocalTime H u) = yr" "MonthFromTime (LocalTime H u) = m - 1"
      "DateFromTime (LocalTime H u) = d"
      by simp_all
    then have "Day (LocalTime H u) = D"
      using day_of_fields [of "LocalTime H u"] by (simp add: D_def)
    with range show "local_day_exists H (month_start yr (m - 1) + d - 1)"
      by (simp add: local_day_exists_def D_def u_def)
  }
qed

text \<open>
  Witness for C4: the leap day of 2024, the last day of the year 100, the first day of
  the year -1 and the last day that a Date reaches, in the example zone; and in the zone
  of Sao Paulo the day 2018-11-04, whose midnight was skipped.
\<close>

theorem fromDateTupleAndTime_roundtrip_witness:
  "new_then (toDateTuple example_host)
     (fromDateTupleAndTime example_host 0 (Fin 2024, Fin 2, Fin 29) None empty_store)
   = Inr (Fin 2024, Fin 2, Fin 29) \<and>
   new_then (toDateTuple example_host)
     (fromDateTupleAndTime example_host 0 (Fin 100, Fin 12, Fin 31) None empty_store)
   = Inr (Fin 100, Fin 12, Fin 31) \<and>
   new_then (toDateTuple example_host)
     (fromDateTupleAndTime example_host 0 (Fin (- 1), Fin 1, Fin 1) None empty_store)
   = Inr (Fin (- 1), Fin 1, Fin 1) \<and>
   new_then (toDateTuple example_host)
     (fromDateTupleAndTime example_host 0 (Fin 275760, Fin 9, Fin 13) None empty_store)
   = Inr (Fin 275760, Fin 9, Fin 13) \<and>
   \<not> local_time_exists sao_paulo_host 1541289600000 \<and>
   new_then (toDateTuple sao_paulo_host)
     (fromDateTupleAndTime sao_paulo_host 0 (Fin 2018, Fin 11, Fin 4) None empty_store)
   = Inr (Fin 2018, Fin 11, Fin 4)"
proof -
  have days: "month_start 2024 1 + 29 - 1 = 19782" "month_start 100 11 + 31 - 1 = - 682639"
    "month_start (- 1) 0 = - 719893" "month_start 275760 8 + 13 - 1 = 100000000"
    "month_start 2018 10 + 4 - 1 = 17839"
    by (simp_all add: month_start_def DayFromYear_def DaysInYear_def)
  have zone: "local_day_exists example_host D" if "\<bar>msPerDay * D - 25200000\<bar> \<le> 8640000000000000"
    for D
    using that by (simp add: local_day_exists_def UTC_def LocalTime_def example_host_def Day_of_days)
  have "local_day_exists sao_paulo_host 17839"
    by (simp add: local_day_exists_def UTC_def LocalTime_def sao_paulo_host_def Day_def
        msPerDay_def)
  moreover have "\<not> local_time_exists sao_paulo_host 1541289600000"
    by (simp add: local_time_exists_def UTC_def LocalTime_def sao_paulo_host_def)
  moreover have "local_day_exists example_host 19782" "local_day_exists example_host (- 682639)"
    "local_day_exists example_host (- 719893)" "local_day_exists example_host 100000000"
    by (rule zone, simp add: msPerDay_def)+
  ultimately show ?thesis
    using fromDateTupleAndTime_roundtrip [of 2024 2 29 example_host 0 empty_store]
      fromDateTupleAndTime_roundtrip [of 100 12 31 example_host 0 empty_store]
      fromDateTupleAndTime_roundtrip [of "- 1" 1 1 example_host 0 empty_store]
      fromDateTupleAndTime_roundtrip [of 275760 9 13 example_host 0 empty_store]
      fromDateTupleAndTime_roundtrip [of 2018 11 4 sao_paulo_host 0 empty_store]
    by (simp add: DaysInMonth_def DaysInYear_def days)
qed

lemma MakeFullYear_50: "MakeFullYear (Fin 50) = Fin 1950"
  by (simp add: MakeFullYear_def js_truncate_def)

text \<open>
  Counterexample to C4 as stated: \<open>[50, 1, 1]\<close> is a valid triple, and the Date
  constructor reads the year 50 as 1950, so the tuple read back is \<open>[1950, 1, 1]\<close>. In
  the zone of Samoa the local day 2011-12-30 was skipped: the tuple read back for
  \<open>[2011, 12, 30]\<close> is \<open>[2011, 12, 31]\<close>. And the day after the last day of a Date,
  \<open>[275760, 9, 14]\<close>, gives an invalid Date, on which the constructor throws.
\<close>

theorem fromDateTupleAndTime_roundtrip_counterexample:
  "new_then (toDateTuple example_host)
     (fromDateTupleAndTime example_host 0 (Fin 50, Fin 1, Fin 1) None empty_store)
   = Inr (Fin 1950, Fin 1, Fin 1) \<and>
   new_then (toDateTuple samoa_host)
     (fromDateTupleAndTime samoa_host 0 (Fin 2011, Fin 12, Fin 30) None empty_store)
   = Inr (Fin 2011, Fin 12, Fin 31) \<and>
   new_then (toDateTuple example_host)
     (fromDateTupleAndTime example_host 0 (Fin 275760, Fin 9, Fin 14) None empty_store)
   = Inl (Error ''Invalid date string or number provided.'')"
proof -
  have "Date_of_fields example_host (Fin 50) (num_sub (Fin 1) (Fin 1)) (Fin 1) (Fin 0) (Fin 0)
      = Some (- 631177200000)"
    by (simp add: Date_of_fields_def MakeFullYear_50 num_sub_def MakeDay_def finite_int_def
        js_truncate_def month_start_def DayFromYear_def DaysInYear_def MakeTime_def
        MakeDate_def clip_local_def UTC_def example_host_def TimeClip_def msPerDay_def)
  moreover have "YearFromTime (- 631152000000) = 1950" "MonthFromTime (- 631152000000) = 0"
    "DateFromTime (- 631152000000) = 1"
    by (simp_all add: YearFromTime_def MonthFromTime_def DateFromTime_def Day_def
        DayWithinYear_def InLeapYear_def DaysInYear_def DayFromYear_def msPerDay_def)
  ultimately have 1: "new_then (toDateTuple example_host)
     (fromDateTupleAndTime example_host 0 (Fin 50, Fin 1, Fin 1) None empty_store)
   = Inr (Fin 1950, Fin 1, Fin 1)"
    by (simp add: fromDateTupleAndTime_def new_Date_def nullish_def Date_getTime_simps
        DateHelper_new_def initial_Date_def adjust_UTC_def no_config_def ToNumber_def isNaN_def
        Date_of_number_def TimeClip_def js_truncate_def new_then_def toDateTuple_def
        Date_getFullYear_def Date_getMonth_def Date_getDate_def local_field_def LocalTime_def
        example_host_def empty_store_def)
  have "MakeFullYear (Fin 2011) = Fin 2011"
    by (simp add: MakeFullYear_def js_truncate_def)
  then have "Date_of_fields samoa_host (Fin 2011) (num_sub (Fin 12) (Fin 1)) (Fin 30) (Fin 0)
      (Fin 0) = Some 1325239200000"
    by (simp add: Date_of_fields_def num_sub_def MakeDay_def finite_int_def
        js_truncate_def month_start_def DayFromYear_def DaysInYear_def MakeTime_def
        MakeDate_def clip_local_def UTC_def samoa_host_def TimeClip_def msPerDay_def)
  moreover have "YearFromTime 1325289600000 = 2011" "MonthFromTime 1325289600000 = 11"
    "DateFromTime 1325289600000 = 31"
    by (simp_all add: YearFromTime_def MonthFromTime_def DateFromTime_def Day_def
        DayWithinYear_def InLeapYear_def DaysInYear_def DayFromYear_def msPerDay_def)
  ultimately have 2: "new_then (toDateTuple samoa_host)
     (fromDateTupleAndTime samoa_host 0 (Fin 2011, Fin 12, Fin 30) None empty_store)
   = Inr (Fin 2011, Fin 12, Fin 31)"
    by (simp add: fromDateTupleAndTime_def new_Date_def nullish_def Date_getTime_simps
        DateHelper_new_def initial_Date_def adjust_UTC_def no_config_def ToNumber_def isNaN_def
        Date_of_number_def TimeClip_def js_truncate_def new_then_def toDateTuple_def
        Date_getFullYear_def Date_getMonth_def Date_getDate_def local_field_def LocalTime_def
        samoa_host_def empty_store_def)
  have "month_start 275760 8 + 14 - 1 = 100000001"
    by (simp add: month_start_def DayFromYear_def DaysInYear_def)
  then have 3: "new_then (toDateTuple example_host)
     (fromDateTupleAndTime example_host 0 (Fin 275760, Fin 9, Fin 14) None empty_store)
   = Inl (Error ''Invalid date string or number provided.'')"
    using roundtrip_cases(2) [of 275760 9 "UTC example_host (msPerDay * 100000001)"
        example_host 14 0 empty_store]
    by (simp add: UTC_def example_host_def msPerDay_def)
  from 1 2 3 show ?thesis by simp
qed

subsection \<open>getDisplayDate\<close>

lemma UTC_in_range:
  assumes "local_time_exists H t" and "\<bar>t\<bar> \<le> 8639999913600000"
  shows "\<bar>UTC H t\<bar> \<le> 8640000000000000"
proof -
  have "\<bar>offset_at_local H t\<bar> \<le> 86400000"
    using assms(1) by (simp add: local_time_exists_def msPerDay_def)
  with assms(2) show ?thesis
    unfolding UTC_def by linarith
qed

lemma iso_parse_example:
  "iso_parse ''2024-03-01T00:00:00'' =
     Some \<lparr>iso_year = 2024, iso_month = 3, iso_day = 1, iso_time = Some (0, 0, 0, 0),
           iso_offset = None\<rparr>"
  by (simp add: iso_parse_def iso_year_part_def digits_n_def opt_field_def iso_time_part_def
      iso_offset_part_def is_digit_def digits_val_def digit_val_def)

lemma StringToNumber_example: "StringToNumber ''2024-03-01T00:00:00'' = NaN"
  by (simp add: eval_string)

lemma Date_parse_example:
  assumes "local_time_exists H 1709251200000"
  shows "Date_parse H ''2024-03-01T00:00:00'' = Fin (of_int (UTC H 1709251200000))"
proof -
  have "\<bar>UTC H 1709251200000\<bar> \<le> 8640000000000000"
    using assms by (intro UTC_in_range) simp_all
  then have "clip_local H (Some 1709251200000) = Some (UTC H 1709251200000)"
    by (simp add: clip_local_def TimeClip_of_int)
  moreover have "MakeDay (Fin 2024) (Fin 2) (Fin 1) = Some 19783"
    by (simp add: MakeDay_def finite_int_def js_truncate_def month_start_def DayFromYear_def
        DaysInYear_def)
  moreover have "MakeTime (Fin 0) (Fin 0) (Fin 0) (Fin 0) = Some 0"
    by (simp add: MakeTime_def finite_int_def js_truncate_def)
  ultimately show ?thesis
    by (simp add: Date_parse_def parse_time_value_def iso_parse_example iso_legal_def
        DaysInMonth_def iso_value_def MakeDate_def msPerDay_def Date_getTime_simps)
qed

lemma first_of_March_2024:
  "YearFromTime 1709251200000 = 2024" "MonthFromTime 1709251200000 = 2"
  "DateFromTime 1709251200000 = 1"
  by (simp_all add: YearFromTime_def MonthFromTime_def DateFromTime_def Day_def
      DayWithinYear_def InLeapYear_def DaysInYear_def DayFromYear_def msPerDay_def)

lemma new_from_example:
  assumes "local_time_exists H 1709251200000"
  shows "DateHelper_new H clock (Some (Str ''2024-03-01T00:00:00'')) config s =
         (let (d, s1) = adjust_UTC H clock config (new_Date (Some (UTC H 1709251200000)) s)
          in Inr (\<lparr>date = d,
                    defaultLang = nullish (lang config) EN,
                    useShortText = nullish (DateHelperConfig.useShortText config) False,
                    useBD = nullish (DateHelperConfig.useBD config) False,
                    use12HourFormat = nullish (DateHelperConfig.use12HourFormat config) False,
                    showSeconds = nullish (DateHelperConfig.showSeconds config) False\<rparr>,
                   s1))"
proof -
  have "\<bar>UTC H 1709251200000\<bar> \<le> 8640000000000000"
    using assms by (intro UTC_in_range) simp_all
  then have "TimeClip (Fin (of_int (UTC H 1709251200000))) = Some (UTC H 1709251200000)"
    by (rule TimeClip_of_int)
  then show ?thesis
    by (simp add: DateHelper_new_def initial_Date_def ToNumber_def StringToNumber_example
        isNaN_def ToString_def Date_parse_example [OF assms] Date_of_number_def)
qed

text \<open>
  C1. In a host whose zone has the local time 2024-03-01T00:00:00 (time value
  1709251200000 read as local time), an instance constructed from the string
  \<open>"2024-03-01T00:00:00"\<close> displays \<open>01 March 2024\<close> with the default configuration,
  \<open>01 March 2567\<close> with \<open>useBD\<close>, and, with \<open>useBD\<close> and the language \<open>th\<close>, \<open>01\<close>, the
  Thai name of March (U+0E21 U+0E35 U+0E19 U+0E32 U+0E04 U+0E21, in UTF-8) and \<open>2567\<close>.
\<close>

theorem getDisplayDate_first_of_March_2024:
  assumes "local_time_exists H 1709251200000"
  shows "new_then (getDisplayDate H)
           (DateHelper_new H clock (Some (Str ''2024-03-01T00:00:00'')) no_config s)
         = Inr ''01 March 2024'' \<and>
         new_then (getDisplayDate H)
           (DateHelper_new H clock (Some (Str ''2024-03-01T00:00:00''))
              (no_config\<lparr>DateHelperConfig.useBD := Some True\<rparr>) s)
         = Inr ''01 March 2567'' \<and>
         new_then (getDisplayDate H)
           (DateHelper_new H clock (Some (Str ''2024-03-01T00:00:00''))
              (no_config\<lparr>lang := Some TH, DateHelperConfig.useBD := Some True\<rparr>) s)
         = Inr (''01 '' @ [CHR 0xE0, CHR 0xB8, CHR 0xA1, CHR 0xE0, CHR 0xB8, CHR 0xB5,
                          CHR 0xE0, CHR 0xB8, CHR 0x99, CHR 0xE0, CHR 0xB8, CHR 0xB2,
                          CHR 0xE0, CHR 0xB8, CHR 0x84, CHR 0xE0, CHR 0xB8, CHR 0xA1] @ '' 2567'')"
proof -
  have round: "LocalTime H (UTC H 1709251200000) = 1709251200000"
    using assms by (simp add: local_time_exists_def)
  show ?thesis
    by (simp add: new_from_example [OF assms] adjust_UTC_def no_config_def new_Date_def
        new_then_def nullish_def getDisplayDate_def getBDYear_def getADYear_def
        getMonthName_def getLanguageConstants_def Date_getDate_def Date_getFullYear_def
        Date_getMonth_def local_field_def round first_of_March_2024 padZero_def eval_number
        array_index_def en_def th_def en_MONTHS_def th_MONTHS_def)
qed

text \<open>Witness for C1: the example host.\<close>

theorem getDisplayDate_first_of_March_2024_witness:
  "new_then (getDisplayDate example_host)
     (DateHelper_new example_host 0 (Some (Str ''2024-03-01T00:00:00'')) no_config empty_store)
   = Inr ''01 March 2024'' \<and>
   new_then (getDisplayDate example_host)
     (DateHelper_new example_host 0 (Some (Str ''2024-03-01T00:00:00''))
        (no_config\<lparr>DateHelperConfig.useBD := Some True\<rparr>) empty_store)
   = Inr ''01 March 2567'' \<and>
   new_then (getDisplayDate example_host)
     (DateHelper_new example_host 0 (Some (Str ''2024-03-01T00:00:00''))
        (no_config\<lparr>lang := Some TH, DateHelperConfig.useBD := Some True\<rparr>) empty_store)
   = Inr (''01 '' @ [CHR 0xE0, CHR 0xB8, CHR 0xA1, CHR 0xE0, CHR 0xB8, CHR 0xB5,
                    CHR 0xE0, CHR 0xB8, CHR 0x99, CHR 0xE0, CHR 0xB8, CHR 0xB2,
                    CHR 0xE0, CHR 0xB8, CHR 0x84, CHR 0xE0, CHR 0xB8, CHR 0xA1] @ '' 2567'')"
  using getDisplayDate_first_of_March_2024 [of example_host 0 empty_store]
  by (simp add: local_time_exists_def LocalTime_def UTC_def example_host_def msPerDay_def)

end
